theory Spec2Isabelle
  imports Main "HOL-Library.Product_Lexorder"
begin

section \<open>Time values\<close>

text \<open>
  A JavaScript \<open>Date\<close> on the current calendar day is held as the number of milliseconds
  since local midnight of that day (day changes are outside the program's scope).
  \<open>getHours\<close> and \<open>getMinutes\<close> read the local clock face of such a date.
\<close>

type_synonym date = int

definition getHours :: "date \<Rightarrow> int" where
  "getHours d = (d div 3600000) mod 24"

definition getMinutes :: "date \<Rightarrow> int" where
  "getMinutes d = (d div 60000) mod 60"

text \<open>
  A wall-clock string \<open>"HH:MM"\<close>, the value of an HTML time input, is held as its two
  numeric fields: \<open>hh\<close> is what \<open>parseInt(s.split(':')[0])\<close> (first variant) or
  \<open>s.split(':').map(Number)[0]\<close> (second variant) reads, \<open>mm\<close> the field after the colon.
  Both fields are two digits wide in the string, so the string order used by the
  listeners' sorts is the lexicographic order on \<open>(hh, mm)\<close>.
\<close>

record timeStr =
  hh :: int
  mm :: int

definition stringOrder :: "timeStr \<Rightarrow> int \<times> int" where
  "stringOrder t = (hh t, mm t)"

text \<open>\<open>date.toLocaleTimeString('en-US', {hour: '2-digit', minute: '2-digit', hour12: false})\<close>\<close>

definition toLocaleTimeString :: "date \<Rightarrow> timeStr" where
  "toLocaleTimeString d = \<lparr>hh = getHours d, mm = getMinutes d\<rparr>"

section \<open>The environment of a handler run\<close>

text \<open>
  What a handler reads from outside the component: the clock (\<open>new Date()\<close>), the
  Firestore handle and the signed-in user (both may be null in the first variant), and
  whether Firestore accepts an \<open>addDoc\<close> or a \<open>setDoc\<close> (a rejected write throws, and
  every write of the program sits in a \<open>try\<close>/\<open>catch\<close> that logs the error).
  \<open>random\<close> is what \<open>Math.random\<close> selects, and \<open>engineOrder\<close>, a rank for every
  document id, is the order in which the JavaScript engine's \<open>sort\<close> leaves elements
  that its comparator does not tell apart.
\<close>

record env =
  clock :: date
  db :: bool
  userId :: "string option"
  addDoc_ok :: bool
  setDoc_ok :: bool
  deleteDoc_ok :: bool
  newDocId :: string
  isoDate :: string
  notificationPermission :: string
  random :: nat
  engineOrder :: "string \<Rightarrow> nat"

datatype error = FirestoreError | ReferenceError string

section \<open>Second variant: tasks with a persisted status\<close>

record task =
  t_id :: string
  t_activity :: string
  t_startTime :: timeStr
  t_endTime :: timeStr
  t_status :: string

record activityLog =
  h_activity :: string
  h_scheduledStart :: timeStr
  h_scheduledEnd :: timeStr
  h_actualEnd :: timeStr
  h_status :: string
  h_date :: string
  h_userId :: "string option"

record reminder =
  isActive :: bool
  r_currentTask :: "task option"
  r_nextTask :: "task option"

text \<open>
  The state of \<open>MainScheduler\<close> together with the stored data it is subscribed to:
  \<open>tasks\<close> is \<open>schedules.tasks\<close> as the schedules listener last pushed it, \<open>history\<close> the
  \<open>history/activities\<close> collection, \<open>notificationState\<close> the reminder popup's state,
  \<open>browserNotifications\<close> the \<open>new Notification(...)\<close> objects created so far (activity
  and next activity), \<open>console\<close> the \<open>console.error\<close> lines (message and error value),
  \<open>formError\<close> the error text of \<open>AddScheduleForm\<close>.
\<close>

record mainScheduler =
  tasks :: "task list"
  history :: "activityLog list"
  currentTime :: date
  notificationState :: reminder
  browserNotifications :: "(string \<times> string option) list"
  console :: "(string \<times> error) list"
  formError :: string

text \<open>\<open>timeStringToDate\<close>: the wall-clock string as a date of today, seconds and ms zero.\<close>

definition timeStringToDate :: "timeStr \<Rightarrow> date" where
  "timeStringToDate timeStr = hh timeStr * 3600000 + mm timeStr * 60000"

text \<open>
  The schedules listener: \<open>scheduleData.tasks.sort((a, b) =>
  a.startTime.localeCompare(b.startTime))\<close>, a stable sort on the start string.
\<close>

definition onSnapshotTasks :: "task list \<Rightarrow> task list" where
  "onSnapshotTasks ts = sort_key (\<lambda>t. stringOrder (t_startTime t)) ts"

text \<open>\<open>setDoc(scheduleDocRef, { tasks })\<close>: throws, or stores the list, which the listener pushes back.\<close>

definition setDoc :: "env \<Rightarrow> task list \<Rightarrow> error + task list" where
  "setDoc e newTasks = (if setDoc_ok e then Inr (onSnapshotTasks newTasks) else Inl FirestoreError)"

text \<open>\<open>addDoc(collection(db, .../history/activities), record)\<close>\<close>

definition addDoc :: "env \<Rightarrow> 'a list \<Rightarrow> 'a \<Rightarrow> error + 'a list" where
  "addDoc e coll x = (if addDoc_ok e then Inr (coll @ [x]) else Inl FirestoreError)"

subsection \<open>Creating and removing a task (\<open>AddScheduleForm\<close>)\<close>

text \<open>The form's fields; an empty time input (the string \<open>''\<close>) is \<open>None\<close>.\<close>

record scheduleInput =
  in_activity :: string
  in_startTime :: "timeStr option"
  in_endTime :: "timeStr option"

definition handleSubmit :: "env \<Rightarrow> scheduleInput \<Rightarrow> mainScheduler \<Rightarrow> mainScheduler" where
  "handleSubmit e inp st =
     (let st0 = st\<lparr>formError := ''''\<rparr> in
      case (in_startTime inp, in_endTime inp) of
        (Some startTime, Some endTime) \<Rightarrow>
          if in_activity inp = '''' then st0\<lparr>formError := ''Please fill in all fields.''\<rparr>
          else
            let start = timeStringToDate startTime;
                end = timeStringToDate endTime
            in if end \<le> start then st0\<lparr>formError := ''End time must be after start time.''\<rparr>
               else
                 let newSchedule = \<lparr>t_id = newDocId e, t_activity = in_activity inp,
                                     t_startTime = startTime, t_endTime = endTime,
                                     t_status = ''pending''\<rparr>;
                     newTasks = sort_key (\<lambda>t. stringOrder (t_startTime t)) (tasks st @ [newSchedule])
                 in (case setDoc e newTasks of
                       Inr stored \<Rightarrow> st0\<lparr>tasks := stored\<rparr>
                     | Inl err \<Rightarrow> st0\<lparr>console := console st0 @ [(''Error adding document: '', err)],
                                      formError := ''Failed to save schedule. Try again.''\<rparr>)
      | _ \<Rightarrow> st0\<lparr>formError := ''Please fill in all fields.''\<rparr>)"

definition handleRemove :: "env \<Rightarrow> string \<Rightarrow> mainScheduler \<Rightarrow> mainScheduler" where
  "handleRemove e taskId st =
     (let newTasks = filter (\<lambda>t. t_id t \<noteq> taskId) (tasks st)
      in case setDoc e newTasks of
           Inr stored \<Rightarrow> st\<lparr>tasks := stored\<rparr>
         | Inl err \<Rightarrow> st\<lparr>console := console st @ [(''Error removing task:'', err)]\<rparr>)"

subsection \<open>The current task\<close>

definition activeTasks :: "task list \<Rightarrow> task list" where
  "activeTasks ts = filter (\<lambda>t. t_status t \<noteq> ''completed'' \<and> t_status t \<noteq> ''overtimed'') ts"

definition currentTask :: "date \<Rightarrow> task list \<Rightarrow> task option" where
  "currentTask now ts =
     find (\<lambda>task.
             let start = timeStringToDate (t_startTime task);
                 end = timeStringToDate (t_endTime task)
             in now \<ge> start \<and> now < end + 20 * 60000
                \<and> t_status task \<noteq> ''completed'' \<and> t_status task \<noteq> ''overtimed'')
          (activeTasks ts)"

text \<open>\<open>Array.prototype.findIndex\<close>; the result \<open>-1\<close> is \<open>None\<close>.\<close>

fun findIndex :: "('a \<Rightarrow> bool) \<Rightarrow> 'a list \<Rightarrow> nat option" where
  "findIndex P [] = None"
| "findIndex P (x # xs) =
     (if P x then Some 0 else map_option Suc (findIndex P xs))"

definition nextTask :: "date \<Rightarrow> task list \<Rightarrow> task option" where
  "nextTask now ts =
     (case currentTask now ts of
        None \<Rightarrow> None
      | Some ct \<Rightarrow>
          (case findIndex (\<lambda>t. t_id t = t_id ct) ts of
             None \<Rightarrow> None
           | Some i \<Rightarrow> if i + 1 < length ts then Some (ts ! (i + 1)) else None))"

subsection \<open>Writes: task status and history\<close>

definition noReminder :: reminder where
  "noReminder = \<lparr>isActive = False, r_currentTask = None, r_nextTask = None\<rparr>"

text \<open>\<open>updateTaskStatus\<close>; \<open>ts\<close> is the \<open>schedules.tasks\<close> the callback closed over.\<close>

definition updateTaskStatus :: "env \<Rightarrow> task list \<Rightarrow> string \<Rightarrow> string \<Rightarrow> mainScheduler \<Rightarrow> mainScheduler" where
  "updateTaskStatus e ts taskId newStatus st =
     (let updatedTasks = map (\<lambda>t. if t_id t = taskId then t\<lparr>t_status := newStatus\<rparr> else t) ts
      in case setDoc e updatedTasks of
           Inr stored \<Rightarrow> st\<lparr>tasks := stored\<rparr>
         | Inl err \<Rightarrow> st\<lparr>console := console st @ [(''Error updating task status:'', err)]\<rparr>)"

definition logActivityToHistory :: "env \<Rightarrow> task \<Rightarrow> date \<Rightarrow> string \<Rightarrow> mainScheduler \<Rightarrow> mainScheduler" where
  "logActivityToHistory e task actualEndTime status st =
     (case addDoc e (history st)
             \<lparr>h_activity = t_activity task,
              h_scheduledStart = t_startTime task,
              h_scheduledEnd = t_endTime task,
              h_actualEnd = toLocaleTimeString actualEndTime,
              h_status = status,
              h_date = isoDate e,
              h_userId = userId e\<rparr> of
        Inr stored \<Rightarrow> st\<lparr>history := stored\<rparr>
      | Inl err \<Rightarrow> st\<lparr>console := console st @ [(''Error logging history:'', err)]\<rparr>)"

subsection \<open>The auto-advance handler and the timing effect\<close>

definition handleOvertimeAdvance :: "env \<Rightarrow> date \<Rightarrow> mainScheduler \<Rightarrow> mainScheduler" where
  "handleOvertimeAdvance e scheduledEnd st =
     (let st0 = st\<lparr>notificationState := noReminder\<rparr> in
      case currentTask (currentTime st) (tasks st) of
        None \<Rightarrow> st0
      | Some ct \<Rightarrow>
          let autoAdvanceTime = scheduledEnd + 20 * 60000;
              st1 = logActivityToHistory e ct autoAdvanceTime ''overtimed'' st0
          in updateTaskStatus e (tasks st) (t_id ct) ''overtimed'' st1)"

text \<open>
  The \<open>useEffect\<close> headed "Core Task Timing Logic (Reminder, Overtime Check,
  Auto-Advance)", run after a render with the state \<open>st\<close>.
\<close>

definition timingEffect :: "env \<Rightarrow> mainScheduler \<Rightarrow> mainScheduler" where
  "timingEffect e st =
     (case currentTask (currentTime st) (tasks st) of
        None \<Rightarrow> st
      | Some ct \<Rightarrow>
          if isActive (notificationState st) then st
          else
            let scheduledEnd = timeStringToDate (t_endTime ct);
                overtimeTrigger = scheduledEnd + 15 * 60000;
                autoAdvanceTrigger = scheduledEnd + 20 * 60000;
                next = nextTask (currentTime st) (tasks st);
                st1 = (if currentTime st \<ge> scheduledEnd \<and> currentTime st < overtimeTrigger
                       then (if \<not> isActive (notificationState st)
                             then st\<lparr>notificationState :=
                                       \<lparr>isActive = True, r_currentTask = Some ct, r_nextTask = next\<rparr>,
                                     browserNotifications :=
                                       (if notificationPermission e = ''granted''
                                        then browserNotifications st
                                             @ [(t_activity ct, map_option t_activity next)]
                                        else browserNotifications st)\<rparr>
                             else st)
                       else st)
            in if currentTime st \<ge> autoAdvanceTrigger
               then handleOvertimeAdvance e scheduledEnd st1
               else st1)"

text \<open>
  The effect has the dependencies \<open>currentTime\<close>, \<open>currentTask\<close>, \<open>nextTask\<close>,
  \<open>notificationState.isActive\<close> and the permission: after a render of the mounted
  component in which one of them has changed, React runs it again.
\<close>

definition effectIfChanged :: "bool \<Rightarrow> env \<Rightarrow> mainScheduler \<Rightarrow> mainScheduler" where
  "effectIfChanged changed e st = (if changed then timingEffect e st else st)"

subsection \<open>Finishing a task\<close>

text \<open>
  \<open>handleFinished\<close>: the handler bound to the task card's finish button and to the
  reminder's only button. \<open>currentTask\<close> is the one of the last render (from
  \<open>currentTime\<close>), \<open>actualEnd\<close> is \<open>new Date()\<close> at the click. The handler is \<open>async\<close>.
  Its first statement clears the popup state; it returns there when there is no current
  task, and otherwise starts the history write and waits for it. At that point the
  component is rendered with the popup state cleared, and the timing effect runs again
  when \<open>notificationState.isActive\<close> has changed, on a state in which the task still has
  its old status. Then the history write and the status write land; an accepted status
  write is pushed back by the schedules listener, which changes \<open>currentTask\<close>, and the
  effect runs once more.
\<close>

definition handleFinished :: "env \<Rightarrow> mainScheduler \<Rightarrow> mainScheduler" where
  "handleFinished e st =
     (let st0 = st\<lparr>notificationState := noReminder\<rparr>;
          rendered = effectIfChanged (isActive (notificationState st)) e st0
      in case currentTask (currentTime st) (tasks st) of
        None \<Rightarrow> rendered
      | Some ct \<Rightarrow>
          let scheduledEnd = timeStringToDate (t_endTime ct);
              actualEnd = clock e;
              overtimeTrigger = scheduledEnd + 15 * 60000;
              status = (if actualEnd > overtimeTrigger then ''overtimed'' else ''on-time'');
              st1 = logActivityToHistory e ct actualEnd status rendered;
              st2 = updateTaskStatus e (tasks st) (t_id ct) ''completed'' st1
          in effectIfChanged (setDoc_ok e) e st2)"

subsection \<open>What \<open>MainScheduler\<close> returns, and the clock tick\<close>

text \<open>
  The names bound where the \<open>return\<close> statement of \<open>MainScheduler\<close> is evaluated: its
  props (line 1034), the constants of its body, and the imports and top-level
  declarations of the module. Evaluating any other name raises a \<open>ReferenceError\<close>.
\<close>

definition mainSchedulerProps :: "string list" where
  "mainSchedulerProps = [''profile'', ''schedules'', ''userId'', ''db'', ''onShowHistory'']"

definition mainSchedulerScope :: "string list" where
  "mainSchedulerScope =
     mainSchedulerProps @
     [''currentTime'', ''setCurrentTime'', ''notificationState'', ''setNotificationState'',
      ''activeTasks'', ''currentTask'', ''currentTaskIndex'', ''nextTask'', ''updateTaskStatus'',
      ''logActivityToHistory'', ''handleFinished'', ''handleOvertimeAdvance'', ''timeDisplay'',
      ''dateDisplay'', ''finishButtonStatus'',
      ''React'', ''useState'', ''useEffect'', ''useCallback'', ''useMemo'', ''initializeApp'',
      ''getAuth'', ''signInAnonymously'', ''signInWithCustomToken'', ''onAuthStateChanged'',
      ''getFirestore'', ''doc'', ''setDoc'', ''onSnapshot'', ''collection'', ''query'', ''orderBy'',
      ''addDoc'', ''updateDoc'', ''LogOut'', ''User'', ''Clock'', ''Calendar'', ''AlertTriangle'',
      ''CheckCircle'', ''Plus'', ''X'', ''List'', ''Menu'', ''Home'', ''BookOpen'', ''ChevronRight'',
      ''BarChart3'', ''APP_NAME'', ''APP_ICON'', ''MOTIVATIONAL_PHRASES'', ''firebaseConfig'',
      ''initialAuthToken'', ''appId'', ''timeStringToDate'', ''ReminderNotification'',
      ''PermissionRequest'', ''ProfileSetup'', ''AddScheduleForm'', ''MainScheduler'',
      ''ProfileHistory'', ''App'']"

definition lookupInMainScheduler :: "string \<Rightarrow> error + string" where
  "lookupInMainScheduler x =
     (if x \<in> set mainSchedulerScope then Inr x else Inl (ReferenceError x))"

text \<open>
  \<open>ReminderNotification({ currentTask, nextTask, onDismiss })\<close> as the list of click
  handlers it renders: nothing when \<open>currentTask\<close> is null, otherwise its one button
  ("Acknowledge & Finish") with \<open>onClick={onDismiss}\<close>.
\<close>

definition ReminderNotification :: "task option \<Rightarrow> task option \<Rightarrow> 'h \<Rightarrow> 'h list" where
  "ReminderNotification cur next onDismiss = (if cur = None then [] else [onDismiss])"

text \<open>
  Two expressions of the \<open>return\<close> statement, as the click handlers they yield; a
  handler is run later, in the environment of the click. The task card (lines 1186 to
  1216): its button has \<open>onClick={currentTask ? handleFinished : undefined}\<close> and is
  disabled when \<open>finishButtonStatus\<close> is the "Auto-Advancing" one, that is when
  \<open>new Date()\<close> at the render is not before the end plus 20 minutes. The popup (lines
  1226 to 1232): \<open>notificationState.isActive && <ReminderNotification ...
  onDismiss={handleFinished} />\<close>.
\<close>

definition finishButton ::
  "env \<Rightarrow> mainScheduler \<Rightarrow> (env \<Rightarrow> mainScheduler \<Rightarrow> mainScheduler) list" where
  "finishButton e st =
     (case currentTask (currentTime st) (tasks st) of
        None \<Rightarrow> []
      | Some ct \<Rightarrow>
          if clock e < timeStringToDate (t_endTime ct) + 20 * 60000
          then [handleFinished] else [])"

definition reminderElement ::
  "mainScheduler \<Rightarrow> (env \<Rightarrow> mainScheduler \<Rightarrow> mainScheduler) list" where
  "reminderElement st =
     (if isActive (notificationState st)
      then ReminderNotification (r_currentTask (notificationState st))
             (r_nextTask (notificationState st)) handleFinished
      else [])"

text \<open>
  The \<open>return\<close> statement of \<open>MainScheduler\<close>, evaluated in source order, as the handlers
  of the component's own buttons it yields (the button of line 1218 calls the prop
  \<open>onShowHistory\<close> of \<open>App\<close> and is left out; the buttons of \<open>AddScheduleForm\<close> are that
  component's). The element \<open><AddScheduleForm ... setSchedules={setSchedules} />\<close> of line
  1184 comes first, and its props are evaluated there.
\<close>

definition MainScheduler_return ::
  "env \<Rightarrow> mainScheduler \<Rightarrow> error + (env \<Rightarrow> mainScheduler \<Rightarrow> mainScheduler) list" where
  "MainScheduler_return e st =
     (case lookupInMainScheduler ''setSchedules'' of
        Inl err \<Rightarrow> Inl err
      | Inr f \<Rightarrow> Inr (finishButton e st @ reminderElement st))"

text \<open>
  One second of the component's clock. The interval (\<open>setCurrentTime(new Date())\<close> every
  second) is set by an effect, and the effects of a component run only after a render of
  it that returned: an error thrown by the render is not caught anywhere (there is no
  error boundary), the component is removed from the page, and neither the interval nor
  the timing effect runs. After a render that returned, the interval fires, the component
  is rendered with the new \<open>currentTime\<close>, and the timing effect runs.
\<close>

definition tick :: "env \<Rightarrow> mainScheduler \<Rightarrow> mainScheduler" where
  "tick e st =
     (case MainScheduler_return e st of
        Inl err \<Rightarrow> st
      | Inr handlers \<Rightarrow>
          (let st' = st\<lparr>currentTime := clock e\<rparr>
           in (case MainScheduler_return e st' of
                 Inl err \<Rightarrow> st'
               | Inr handlers' \<Rightarrow> timingEffect e st')))"

section \<open>First variant: schedules deleted on finish\<close>

record schedule =
  s_id :: string
  s_name :: string
  s_startTime :: timeStr
  s_endTime :: timeStr
  s_createdAt :: date

record historyDoc =
  hd_name :: string
  hd_scheduledStartTime :: timeStr
  hd_scheduledEndTime :: timeStr
  hd_finishedAt :: date
  hd_status :: string
  hd_durationMinutes :: int

text \<open>
  The popup \<open>showNotification = { message, nextTask }\<close>: the message is built from a
  motivational phrase (its index in \<open>MOTIVATIONAL_PHRASES\<close>) and the task's name, the
  second line from the next schedule's name and start, when there is one.
\<close>

record popup =
  p_phrase :: nat
  p_taskName :: string
  p_nextTask :: "(string \<times> timeStr) option"

text \<open>
  An object \<open>{ ...s, status, minutesPastDue }\<close>: the schedule's fields with a status and
  the minutes past due (\<open>None\<close> where the object has no such field).
\<close>

record attention =
  a_schedule :: schedule
  a_status :: "string option"
  a_minutesPastDue :: "int option"

record scheduleForm =
  sf_name :: string
  sf_startTime :: timeStr
  sf_endTime :: timeStr

text \<open>
  The state of \<open>App\<close> with the stored collections it listens to: \<open>schedules\<close> and
  \<open>historyDocs\<close> as the listeners pushed them, the popup, the browser's \<open>localStorage\<close>,
  the clock state \<open>appTime\<close> (\<open>currentTime\<close>), the console and the schedule modal.
\<close>

record app =
  schedules :: "schedule list"
  historyDocs :: "historyDoc list"
  showNotification :: "popup option"
  localStorage :: "string \<rightharpoonup> string"
  appTime :: date
  consoleErrors :: "(string \<times> error) list"
  isScheduleModalOpen :: bool

text \<open>
  The names bound where \<open>handleFinishTask\<close> runs: the imports of the module (lines 1 to
  14) and its top-level declarations. A name outside them (and outside the handler's own
  locals, none of which is \<open>deleteDoc\<close>) raises a \<open>ReferenceError\<close> when evaluated.
\<close>

definition firestoreImports :: "string list" where
  "firestoreImports =
     [''getFirestore'', ''doc'', ''getDoc'', ''setDoc'', ''onSnapshot'', ''collection'', ''query'',
      ''where'', ''addDoc'', ''getDocs'', ''updateDoc'', ''Timestamp'', ''setLogLevel'']"

definition moduleScope :: "string list" where
  "moduleScope =
     [''React'', ''useState'', ''useEffect'', ''useCallback'', ''useMemo'', ''createRoot'',
      ''initializeApp'', ''getAuth'', ''signInAnonymously'', ''signInWithCustomToken'',
      ''onAuthStateChanged'']
     @ firestoreImports @
     [''Clock'', ''Hand'', ''User'', ''List'', ''LogOut'', ''Plus'', ''CheckCircle'', ''XCircle'',
      ''Settings'', ''Menu'', ''Award'', ''firebaseConfigStr'', ''initialAuthToken'', ''appId'',
      ''MOTIVATIONAL_PHRASES'', ''pad'', ''getMotivationalWord'', ''formatTime'', ''formatMinutes'',
      ''useFirebaseSetup'', ''useFirestoreDocument'', ''useFirestoreCollection'', ''App'']"

definition lookupIdentifier :: "string \<Rightarrow> error + string" where
  "lookupIdentifier x = (if x \<in> set moduleScope then Inr x else Inl (ReferenceError x))"

text \<open>
  The schedules listener of \<open>useFirestoreCollection\<close>:
  \<open>items.sort((a, b) => (a.startTime > b.startTime) ? 1 : -1)\<close>, a sort on the start
  string. The comparator never returns 0, so it orders two schedules with the same start
  string either way round: where they end up relative to each other is the engine's
  choice (one engine reverses them, another keeps them), given here by \<open>engineOrder\<close>
  on their ids.
\<close>

definition onSnapshotSchedules :: "env \<Rightarrow> schedule list \<Rightarrow> schedule list" where
  "onSnapshotSchedules e items =
     sort_key (\<lambda>s. (stringOrder (s_startTime s), engineOrder e (s_id s))) items"

definition startMinutes :: "schedule \<Rightarrow> int" where
  "startMinutes s = hh (s_startTime s) * 60 + mm (s_startTime s)"

definition endMinutes :: "schedule \<Rightarrow> int" where
  "endMinutes s = hh (s_endTime s) * 60 + mm (s_endTime s)"

definition OVERTIME_GRACE_MINUTES :: int where
  "OVERTIME_GRACE_MINUTES = 15"

definition OVERTIME_TRIGGER_MINUTES :: int where
  "OVERTIME_TRIGGER_MINUTES = 20"

subsection \<open>Creating a schedule\<close>

definition handleScheduleSubmit :: "env \<Rightarrow> scheduleForm \<Rightarrow> app \<Rightarrow> app" where
  "handleScheduleSubmit e form st =
     (if \<not> db e \<or> userId e = None then st
      else case addDoc e (schedules st)
                  \<lparr>s_id = newDocId e, s_name = sf_name form, s_startTime = sf_startTime form,
                   s_endTime = sf_endTime form, s_createdAt = clock e\<rparr> of
             Inr stored \<Rightarrow> st\<lparr>schedules := onSnapshotSchedules e stored, isScheduleModalOpen := False\<rparr>
           | Inl err \<Rightarrow> st\<lparr>consoleErrors := consoleErrors st @ [(''Error adding schedule:'', err)]\<rparr>)"

subsection \<open>Finishing a schedule\<close>

text \<open>
  \<open>handleFinishTask(taskId, statusOverride)\<close>, "triggered by button or auto-advance":
  the button passes no override (\<open>None\<close>), the auto-advance passes \<open>'OVERTIME'\<close>.
  Step 1 adds the history document and, in the same \<open>try\<close>, clears the popup and the
  \<open>notified-\<close> flag. Step 2 evaluates \<open>deleteDoc(scheduleDocRef)\<close> in its own \<open>try\<close>.
\<close>

definition handleFinishTask :: "env \<Rightarrow> string \<Rightarrow> string option \<Rightarrow> app \<Rightarrow> app" where
  "handleFinishTask e taskId statusOverride st =
     (if \<not> db e \<or> userId e = None \<or> taskId = '''' then st
      else case find (\<lambda>s. s_id s = taskId) (schedules st) of
        None \<Rightarrow> st
      | Some task \<Rightarrow>
          let finishedAt = clock e;
              endM = endMinutes task;
              finishedMinutes = getHours finishedAt * 60 + getMinutes finishedAt;
              isOvertime = (statusOverride = Some ''OVERTIME''
                            \<or> finishedMinutes > endM + OVERTIME_GRACE_MINUTES);
              st1 = (case addDoc e (historyDocs st)
                            \<lparr>hd_name = s_name task,
                             hd_scheduledStartTime = s_startTime task,
                             hd_scheduledEndTime = s_endTime task,
                             hd_finishedAt = finishedAt,
                             hd_status = (if isOvertime then ''OVERTIME'' else ''ON TIME''),
                             hd_durationMinutes = finishedMinutes - startMinutes task\<rparr> of
                       Inr stored \<Rightarrow>
                         st\<lparr>historyDocs := stored, showNotification := None,
                            localStorage := (localStorage st)(''notified-'' @ taskId := None)\<rparr>
                     | Inl err \<Rightarrow>
                         st\<lparr>consoleErrors := consoleErrors st @ [(''Error adding to history:'', err)]\<rparr>)
          in (case lookupIdentifier ''deleteDoc'' of
                Inl err \<Rightarrow>
                  st1\<lparr>consoleErrors := consoleErrors st1 @ [(''Error deleting schedule:'', err)]\<rparr>
              | Inr f \<Rightarrow>
                  if deleteDoc_ok e
                  then st1\<lparr>schedules := filter (\<lambda>s. s_id s \<noteq> taskId) (schedules st1)\<rparr>
                  else st1\<lparr>consoleErrors :=
                             consoleErrors st1 @ [(''Error deleting schedule:'', FirestoreError)]\<rparr>))"

subsection \<open>The active schedule\<close>

text \<open>
  \<open>Array.prototype.find\<close> with a callback that has effects: the state is threaded. The
  callback's value is only tested (an object is truthy, \<open>undefined\<close> and \<open>false\<close>,
  here \<open>None\<close>, are falsy); what \<open>find\<close> returns is the element itself.
\<close>

fun findWith :: "('a \<Rightarrow> 's \<Rightarrow> 's \<times> 'b option) \<Rightarrow> 'a list \<Rightarrow> 's \<Rightarrow> 's \<times> 'a option" where
  "findWith f [] st = (st, None)"
| "findWith f (x # xs) st =
     (case f x st of
        (st', Some y) \<Rightarrow> (st', Some x)
      | (st', None) \<Rightarrow> findWith f xs st')"

definition nowMinutes :: "date \<Rightarrow> int" where
  "nowMinutes d = getHours d * 60 + getMinutes d"

definition isRunning :: "int \<Rightarrow> schedule \<Rightarrow> bool" where
  "isRunning nowM s = (nowM \<ge> startMinutes s \<and> nowM < endMinutes s)"

text \<open>
  The callback of the second \<open>find\<close> ("the task that just ended, or is overdue").
  \<open>scheds\<close> and \<open>shown\<close> are the \<open>schedules\<close> and \<open>showNotification\<close> of the render;
  \<open>localStorage\<close> is read from the browser.
\<close>

definition overdueCallback ::
  "env \<Rightarrow> schedule list \<Rightarrow> popup option \<Rightarrow> int \<Rightarrow> schedule \<Rightarrow> app \<Rightarrow> app \<times> attention option" where
  "overdueCallback e scheds shown nowM s st =
     (let endM = endMinutes s;
          graceEndMinutes = endM + OVERTIME_GRACE_MINUTES;
          autoAdvanceMinutes = endM + OVERTIME_TRIGGER_MINUTES
      in if nowM \<ge> endM \<and> nowM < autoAdvanceMinutes
         then
           if nowM \<ge> autoAdvanceMinutes \<and> db e
           then (handleFinishTask e (s_id s) (Some ''OVERTIME'') st, None)
           else
             let nextSchedule = find (\<lambda>next. startMinutes next \<ge> autoAdvanceMinutes) scheds;
                 st' = (if nowM = endM \<and> shown = None
                           \<and> localStorage st (''notified-'' @ s_id s) = None
                        then st\<lparr>localStorage := (localStorage st)(''notified-'' @ s_id s \<mapsto> ''true''),
                                showNotification :=
                                  Some \<lparr>p_phrase = random e mod 8, p_taskName = s_name s,
                                        p_nextTask = map_option (\<lambda>n. (s_name n, s_startTime n))
                                                       nextSchedule\<rparr>\<rparr>
                        else st);
                 status = (if nowM \<le> graceEndMinutes then ''ON_TIME_WINDOW'' else ''OVERDUE'')
             in (st', Some \<lparr>a_schedule = s, a_status = Some status,
                           a_minutesPastDue = Some (nowM - endM)\<rparr>)
         else (st, None))"

text \<open>
  The \<open>useMemo\<close> headed "Current Schedule Calculation and Notification Logic": the new
  state and the value (\<open>None\<close> is \<open>null\<close>). A running task is returned as
  \<open>{ ...currentTask, status: 'RUNNING' }\<close>; otherwise the value is \<open>overdueTask || null\<close>,
  where \<open>overdueTask\<close> is the element the second \<open>find\<close> returned, a stored schedule.
\<close>

definition activeSchedule :: "env \<Rightarrow> app \<Rightarrow> app \<times> attention option" where
  "activeSchedule e st =
     (let nowM = nowMinutes (appTime st) in
      case find (isRunning nowM) (schedules st) of
        Some cur \<Rightarrow>
          (st, Some \<lparr>a_schedule = cur, a_status = Some ''RUNNING'', a_minutesPastDue = None\<rparr>)
      | None \<Rightarrow>
          (case findWith (overdueCallback e (schedules st) (showNotification st) nowM)
                  (schedules st) st of
             (st', Some overdueTask) \<Rightarrow>
               (st', Some \<lparr>a_schedule = overdueTask, a_status = None, a_minutesPastDue = None\<rparr>)
           | (st', None) \<Rightarrow> (st', None)))"

text \<open>
  The one-second interval of the first variant (\<open>setCurrentTime(new Date())\<close>, render),
  and a reload of the page: the component state starts from its initial values, the
  listeners push the stored collections, \<open>localStorage\<close> is the browser's, and the first
  render computes the active schedule.
\<close>

definition tickApp :: "env \<Rightarrow> app \<Rightarrow> app" where
  "tickApp e st = fst (activeSchedule e (st\<lparr>appTime := clock e\<rparr>))"


section \<open>Runs of the clock\<close>

text \<open>
  A run of the clock: one environment (clock reading, write outcomes) per second, in
  order.
\<close>

fun ticks :: "env list \<Rightarrow> mainScheduler \<Rightarrow> mainScheduler" where
  "ticks [] st = st"
| "ticks (e # es) st = ticks es (tick e st)"

fun ticksApp :: "env list \<Rightarrow> app \<Rightarrow> app" where
  "ticksApp [] st = st"
| "ticksApp (e # es) st = ticksApp es (tickApp e st)"

section \<open>The popup of the first variant\<close>


section \<open>Example data\<close>

text \<open>An instant of today: hours, minutes and seconds on the clock face.\<close>

definition clockAt :: "int \<Rightarrow> int \<Rightarrow> int \<Rightarrow> date" where
  "clockAt h m s = h * 3600000 + m * 60000 + s * 1000"

definition hhmm :: "int \<Rightarrow> int \<Rightarrow> timeStr" where
  "hhmm h m = \<lparr>hh = h, mm = m\<rparr>"

text \<open>A signed-in session in which every Firestore write is accepted, at clock \<open>d\<close>.\<close>

definition envAt :: "date \<Rightarrow> env" where
  "envAt d = \<lparr>clock = d, db = True, userId = Some ''u1'', addDoc_ok = True, setDoc_ok = True,
              deleteDoc_ok = True, newDocId = ''n1'', isoDate = ''2025-01-01'',
              notificationPermission = ''granted'', random = 0, engineOrder = (\<lambda>i. 0)\<rparr>"

text \<open>First variant: a schedule from \<open>sh:sm\<close> to \<open>eh:em\<close>, and an app holding a list of them.\<close>

definition mkSchedule :: "string \<Rightarrow> int \<Rightarrow> int \<Rightarrow> int \<Rightarrow> int \<Rightarrow> schedule" where
  "mkSchedule i sh sm eh em =
     \<lparr>s_id = i, s_name = i, s_startTime = hhmm sh sm, s_endTime = hhmm eh em, s_createdAt = 0\<rparr>"

definition appWith :: "schedule list \<Rightarrow> date \<Rightarrow> app" where
  "appWith ss d = \<lparr>schedules = ss, historyDocs = [], showNotification = None,
                   localStorage = Map.empty, appTime = d, consoleErrors = [],
                   isScheduleModalOpen = False\<rparr>"

text \<open>Second variant: a pending task, and a scheduler holding a list of tasks.\<close>

definition mkTask :: "string \<Rightarrow> int \<Rightarrow> int \<Rightarrow> int \<Rightarrow> int \<Rightarrow> task" where
  "mkTask i sh sm eh em =
     \<lparr>t_id = i, t_activity = i, t_startTime = hhmm sh sm, t_endTime = hhmm eh em,
      t_status = ''pending''\<rparr>"

definition schedulerWith :: "task list \<Rightarrow> date \<Rightarrow> mainScheduler" where
  "schedulerWith ts d = \<lparr>tasks = ts, history = [], currentTime = d, notificationState = noReminder,
                         browserNotifications = [], console = [], formError = ''''\<rparr>"

section \<open>Properties\<close>

subsection \<open>Shared facts\<close>

lemma lookup_deleteDoc: "lookupIdentifier ''deleteDoc'' = Inl (ReferenceError ''deleteDoc'')"
  by (simp add: lookupIdentifier_def moduleScope_def firestoreImports_def)

lemma handleFinishTask_schedules: "schedules (handleFinishTask e taskId ov st) = schedules st"
  by (simp add: handleFinishTask_def lookup_deleteDoc addDoc_def Let_def split: option.splits)

lemma find_Some_mem: "find P xs = Some x \<Longrightarrow> x \<in> set xs \<and> P x"
  by (induction xs) (auto split: if_splits)

lemma find_Some_split:
  "find P xs = Some x \<Longrightarrow> \<exists>ys zs. xs = ys @ x # zs \<and> P x \<and> (\<forall>y\<in>set ys. \<not> P y)"
proof (induction xs)
  case Nil
  then show ?case by simp
next
  case (Cons a xs)
  show ?case
  proof (cases "P a")
    case True
    with Cons.prems have "x = a" by simp
    with True have "a # xs = [] @ x # xs \<and> P x \<and> (\<forall>y\<in>set []. \<not> P y)" by simp
    then show ?thesis by blast
  next
    case False
    with Cons.prems have "find P xs = Some x" by simp
    from Cons.IH [OF this] obtain ys zs where "xs = ys @ x # zs" "P x" "\<forall>y\<in>set ys. \<not> P y"
      by blast
    with False have "a # xs = (a # ys) @ x # zs \<and> P x \<and> (\<forall>y\<in>set (a # ys). \<not> P y)" by simp
    then show ?thesis by blast
  qed
qed

lemma currentTask_SomeD:
  assumes "currentTask now ts = Some ct"
  shows "ct \<in> set ts" and "timeStringToDate (t_startTime ct) \<le> now"
    and "now < timeStringToDate (t_endTime ct) + 20 * 60000"
    and "t_status ct \<noteq> ''completed''" and "t_status ct \<noteq> ''overtimed''"
  using find_Some_mem [of _ "activeTasks ts" ct] assms
  by (auto simp: currentTask_def activeTasks_def Let_def)

lemma updateTaskStatus_history: "history (updateTaskStatus e ts i s st) = history st"
  by (simp add: updateTaskStatus_def setDoc_def Let_def)

lemma logActivityToHistory_tasks: "tasks (logActivityToHistory e t d s st) = tasks st"
  by (simp add: logActivityToHistory_def addDoc_def)

lemma timingEffect_no_advance:
  "timingEffect e st =
     (case currentTask (currentTime st) (tasks st) of
        None \<Rightarrow> st
      | Some ct \<Rightarrow>
          if isActive (notificationState st) then st
          else if timeStringToDate (t_endTime ct) \<le> currentTime st
                  \<and> currentTime st < timeStringToDate (t_endTime ct) + 15 * 60000
          then st\<lparr>notificationState :=
                    \<lparr>isActive = True, r_currentTask = Some ct,
                     r_nextTask = nextTask (currentTime st) (tasks st)\<rparr>,
                  browserNotifications :=
                    (if notificationPermission e = ''granted''
                     then browserNotifications st
                          @ [(t_activity ct, map_option t_activity (nextTask (currentTime st) (tasks st)))]
                     else browserNotifications st)\<rparr>
          else st)"
proof (cases "currentTask (currentTime st) (tasks st)")
  case None
  then show ?thesis by (simp add: timingEffect_def)
next
  case (Some ct)
  from currentTask_SomeD(3) [OF Some]
  have "\<not> timeStringToDate (t_endTime ct) + 20 * 60000 \<le> currentTime st" by simp
  with Some show ?thesis
    by (simp add: timingEffect_def Let_def)
qed

lemma timingEffect_store:
  "tasks (timingEffect e st) = tasks st" "history (timingEffect e st) = history st"
  by (simp_all add: timingEffect_no_advance split: option.splits)

lemma effectIfChanged_store:
  "tasks (effectIfChanged c e st) = tasks st" "history (effectIfChanged c e st) = history st"
  by (simp_all add: effectIfChanged_def timingEffect_store)

lemma lookup_setSchedules:
  "lookupInMainScheduler ''setSchedules'' = Inl (ReferenceError ''setSchedules'')"
  by (simp add: lookupInMainScheduler_def mainSchedulerScope_def mainSchedulerProps_def)

lemma MainScheduler_return_throws:
  "MainScheduler_return e st = Inl (ReferenceError ''setSchedules'')"
  by (simp add: MainScheduler_return_def lookup_setSchedules)

lemma tick_throws: "tick e st = st"
  by (simp add: tick_def MainScheduler_return_throws)

lemma tick_store:
  "tasks (tick e st) = tasks st" "history (tick e st) = history st"
  by (simp_all add: tick_throws)

lemma overdueCallback_eq:
  "overdueCallback e scheds shown nowM s st =
     (if endMinutes s \<le> nowM \<and> nowM < endMinutes s + 20
      then (if nowM = endMinutes s \<and> shown = None
               \<and> localStorage st (''notified-'' @ s_id s) = None
            then st\<lparr>localStorage := (localStorage st)(''notified-'' @ s_id s \<mapsto> ''true''),
                    showNotification :=
                      Some \<lparr>p_phrase = random e mod 8, p_taskName = s_name s,
                            p_nextTask = map_option (\<lambda>n. (s_name n, s_startTime n))
                               (find (\<lambda>next. startMinutes next \<ge> endMinutes s + 20) scheds)\<rparr>\<rparr>
            else st,
            Some \<lparr>a_schedule = s,
                  a_status = Some (if nowM \<le> endMinutes s + 15 then ''ON_TIME_WINDOW'' else ''OVERDUE''),
                  a_minutesPastDue = Some (nowM - endMinutes s)\<rparr>)
      else (st, None))"
  by (simp add: overdueCallback_def Let_def OVERTIME_GRACE_MINUTES_def OVERTIME_TRIGGER_MINUTES_def)

lemma findWith_find:
  assumes out: "\<And>x st. \<not> P x \<Longrightarrow> f x st = (st, None)"
    and hit: "\<And>x st. P x \<Longrightarrow> snd (f x st) \<noteq> None"
  shows "findWith f xs st =
           (case find P xs of None \<Rightarrow> (st, None) | Some x \<Rightarrow> (fst (f x st), Some x))"
proof (induction xs)
  case Nil
  show ?case by simp
next
  case (Cons x xs)
  show ?case
  proof (cases "P x")
    case True
    from hit [OF True, of st] obtain st' y where "f x st = (st', Some y)"
      by (cases "f x st") auto
    with True show ?thesis by simp
  next
    case False
    with out [OF False, of st] Cons.IH show ?thesis by simp
  qed
qed

lemma findWith_overdueCallback:
  "findWith (overdueCallback e scheds shown nowM) xs st =
     (case find (\<lambda>s. endMinutes s \<le> nowM \<and> nowM < endMinutes s + 20) xs of
        None \<Rightarrow> (st, None)
      | Some s \<Rightarrow> (fst (overdueCallback e scheds shown nowM s st), Some s))"
  by (rule findWith_find) (simp_all add: overdueCallback_eq)

lemma activeSchedule_eq:
  "activeSchedule e st =
     (case find (isRunning (nowMinutes (appTime st))) (schedules st) of
        Some cur \<Rightarrow>
          (st, Some \<lparr>a_schedule = cur, a_status = Some ''RUNNING'', a_minutesPastDue = None\<rparr>)
      | None \<Rightarrow>
         (case find (\<lambda>s. endMinutes s \<le> nowMinutes (appTime st)
                          \<and> nowMinutes (appTime st) < endMinutes s + 20) (schedules st) of
            None \<Rightarrow> (st, None)
          | Some s \<Rightarrow>
              (fst (overdueCallback e (schedules st) (showNotification st)
                      (nowMinutes (appTime st)) s st),
               Some \<lparr>a_schedule = s, a_status = None, a_minutesPastDue = None\<rparr>)))"
  by (simp add: activeSchedule_def Let_def findWith_overdueCallback split: option.splits)

lemma overdueCallback_store:
  "schedules (fst (overdueCallback e scheds shown nowM s st)) = schedules st"
  "historyDocs (fst (overdueCallback e scheds shown nowM s st)) = historyDocs st"
  "appTime (fst (overdueCallback e scheds shown nowM s st)) = appTime st"
  by (simp_all add: overdueCallback_eq)

lemma activeSchedule_store:
  "schedules (fst (activeSchedule e st)) = schedules st"
  "historyDocs (fst (activeSchedule e st)) = historyDocs st"
  "appTime (fst (activeSchedule e st)) = appTime st"
  by (simp_all add: activeSchedule_eq overdueCallback_store split: option.splits)

lemma activeSchedule_result:
  assumes "appTime st = appTime st'" and "schedules st = schedules st'"
  shows "snd (activeSchedule e st) = snd (activeSchedule e' st')"
  using assms by (simp add: activeSchedule_eq split: option.splits)

lemma overdueCallback_again:
  "fst (overdueCallback e' scheds
          (showNotification (fst (overdueCallback e scheds (showNotification st) nowM s st))) nowM s
          (fst (overdueCallback e scheds (showNotification st) nowM s st)))
   = fst (overdueCallback e scheds (showNotification st) nowM s st)"
  by (simp add: overdueCallback_eq)

lemma activeSchedule_again:
  "activeSchedule e' (fst (activeSchedule e st)) = activeSchedule e st"
proof (cases "find (isRunning (nowMinutes (appTime st))) (schedules st)")
  case (Some cur)
  then show ?thesis by (simp add: activeSchedule_eq)
next
  case None
  note running = None
  show ?thesis
  proof (cases "find (\<lambda>s. endMinutes s \<le> nowMinutes (appTime st)
                          \<and> nowMinutes (appTime st) < endMinutes s + 20) (schedules st)")
    case None
    with running show ?thesis by (simp add: activeSchedule_eq)
  next
    case (Some s)
    have first: "activeSchedule e st
        = (fst (overdueCallback e (schedules st) (showNotification st)
                  (nowMinutes (appTime st)) s st),
           Some \<lparr>a_schedule = s, a_status = None, a_minutesPastDue = None\<rparr>)"
      using running Some by (simp add: activeSchedule_eq)
    have "activeSchedule e' (fst (activeSchedule e st))
        = (fst (overdueCallback e' (schedules st) (showNotification (fst (activeSchedule e st)))
                  (nowMinutes (appTime st)) s (fst (activeSchedule e st))),
           Some \<lparr>a_schedule = s, a_status = None, a_minutesPastDue = None\<rparr>)"
      using running Some
      by (simp add: activeSchedule_eq [of e' "fst (activeSchedule e st)"] activeSchedule_store)
    also have "\<dots> = activeSchedule e st"
      unfolding first by (simp add: overdueCallback_again)
    finally show ?thesis .
  qed
qed

lemmas example_defs =
  clockAt_def hhmm_def envAt_def mkSchedule_def appWith_def mkTask_def schedulerWith_def

lemmas clock_defs =
  timeStringToDate_def toLocaleTimeString_def getHours_def getMinutes_def nowMinutes_def
  startMinutes_def endMinutes_def OVERTIME_GRACE_MINUTES_def OVERTIME_TRIGGER_MINUTES_def

lemma handleFinished_history:
  assumes "currentTask (currentTime st) (tasks st) = Some ct" and "addDoc_ok e"
  shows "history (handleFinished e st) =
           history st @
             [\<lparr>h_activity = t_activity ct, h_scheduledStart = t_startTime ct,
               h_scheduledEnd = t_endTime ct, h_actualEnd = toLocaleTimeString (clock e),
               h_status = (if clock e > timeStringToDate (t_endTime ct) + 15 * 60000
                           then ''overtimed'' else ''on-time''),
               h_date = isoDate e, h_userId = userId e\<rparr>]"
  using assms
  by (simp add: handleFinished_def Let_def effectIfChanged_store updateTaskStatus_history
      logActivityToHistory_def addDoc_def)

lemma handleFinishTask_history:
  assumes "db e" and "userId e \<noteq> None" and "taskId \<noteq> ''''"
    and "find (\<lambda>s. s_id s = taskId) (schedules st) = Some task" and "addDoc_ok e"
  shows "historyDocs (handleFinishTask e taskId None st) =
           historyDocs st @
             [\<lparr>hd_name = s_name task, hd_scheduledStartTime = s_startTime task,
               hd_scheduledEndTime = s_endTime task, hd_finishedAt = clock e,
               hd_status = (if nowMinutes (clock e) > endMinutes task + 15
                            then ''OVERTIME'' else ''ON TIME''),
               hd_durationMinutes = nowMinutes (clock e) - startMinutes task\<rparr>]"
  using assms
  by (simp add: handleFinishTask_def Let_def lookup_deleteDoc addDoc_def nowMinutes_def
      OVERTIME_GRACE_MINUTES_def)

lemma handleFinished_tasks:
  assumes "currentTask (currentTime st) (tasks st) = Some ct" and "setDoc_ok e"
  shows "tasks (handleFinished e st) =
           onSnapshotTasks
             (map (\<lambda>t. if t_id t = t_id ct then t\<lparr>t_status := ''completed''\<rparr> else t) (tasks st))"
  using assms
  by (simp add: handleFinished_def Let_def effectIfChanged_store updateTaskStatus_def setDoc_def)

lemma handleOvertimeAdvance_tasks:
  assumes "currentTask (currentTime st) (tasks st) = Some ct" and "setDoc_ok e"
  shows "tasks (handleOvertimeAdvance e d st) =
           onSnapshotTasks
             (map (\<lambda>t. if t_id t = t_id ct then t\<lparr>t_status := ''overtimed''\<rparr> else t) (tasks st))"
  using assms by (simp add: handleOvertimeAdvance_def Let_def updateTaskStatus_def setDoc_def)

lemma set_onSnapshotTasks: "set (onSnapshotTasks ts) = set ts"
  by (simp add: onSnapshotTasks_def)

lemma length_onSnapshotTasks: "length (onSnapshotTasks ts) = length ts"
  by (simp add: onSnapshotTasks_def)

lemma ids_of_status_update:
  "map t_id (map (\<lambda>t. if t_id t = i then t\<lparr>t_status := s\<rparr> else t) ts) = map t_id ts"
  by (induction ts) simp_all

lemma ids_of_stored_update:
  "t_id ` set (onSnapshotTasks (map (\<lambda>t. if t_id t = i then t\<lparr>t_status := s\<rparr> else t) ts))
     = t_id ` set ts"
proof -
  have "t_id ` set (onSnapshotTasks (map (\<lambda>t. if t_id t = i then t\<lparr>t_status := s\<rparr> else t) ts))
      = set (map t_id (map (\<lambda>t. if t_id t = i then t\<lparr>t_status := s\<rparr> else t) ts))"
    by (simp only: set_onSnapshotTasks set_map)
  also have "\<dots> = set (map t_id ts)"
    by (simp only: ids_of_status_update)
  also have "\<dots> = t_id ` set ts"
    by (simp only: set_map)
  finally show ?thesis .
qed

lemma updateTaskStatus_keeps_blocks:
  assumes "tasks st' = ts"
  shows "length (tasks (updateTaskStatus e ts i s st')) = length ts
   \<and> t_id ` set (tasks (updateTaskStatus e ts i s st')) = t_id ` set ts"
proof (cases "setDoc_ok e")
  case True
  then have "tasks (updateTaskStatus e ts i s st')
      = onSnapshotTasks (map (\<lambda>t. if t_id t = i then t\<lparr>t_status := s\<rparr> else t) ts)"
    by (simp add: updateTaskStatus_def setDoc_def Let_def)
  then show ?thesis
    by (simp only: length_onSnapshotTasks ids_of_stored_update length_map simp_thms)
next
  case False
  then have "tasks (updateTaskStatus e ts i s st') = tasks st'"
    by (simp add: updateTaskStatus_def setDoc_def Let_def)
  with assms show ?thesis by simp
qed

lemma handleFinished_keeps_blocks:
  "length (tasks (handleFinished e st)) = length (tasks st)
   \<and> t_id ` set (tasks (handleFinished e st)) = t_id ` set (tasks st)"
proof (cases "currentTask (currentTime st) (tasks st)")
  case None
  then show ?thesis by (simp add: handleFinished_def Let_def effectIfChanged_store)
next
  case (Some ct)
  then show ?thesis
    using updateTaskStatus_keeps_blocks [of _ "tasks st" e "t_id ct" "''completed''"]
    by (simp add: handleFinished_def Let_def logActivityToHistory_tasks effectIfChanged_store)
qed

lemma handleOvertimeAdvance_keeps_blocks:
  "length (tasks (handleOvertimeAdvance e d st)) = length (tasks st)
   \<and> t_id ` set (tasks (handleOvertimeAdvance e d st)) = t_id ` set (tasks st)"
proof (cases "currentTask (currentTime st) (tasks st)")
  case None
  then show ?thesis by (simp add: handleOvertimeAdvance_def)
next
  case (Some ct)
  then show ?thesis
    using updateTaskStatus_keeps_blocks [of _ "tasks st" e "t_id ct" "''overtimed''"]
    by (simp add: handleOvertimeAdvance_def Let_def logActivityToHistory_tasks)
qed

lemma find_filter: "find P (filter Q xs) = find (\<lambda>x. Q x \<and> P x) xs"
  by (induction xs) auto

lemma find_first: "P x \<Longrightarrow> \<forall>y\<in>set ys. \<not> P y \<Longrightarrow> find P (ys @ x # zs) = Some x"
  by (induction ys) auto

lemma currentTask_eq:
  "currentTask now ts =
     find (\<lambda>t. timeStringToDate (t_startTime t) \<le> now
               \<and> now < timeStringToDate (t_endTime t) + 20 * 60000
               \<and> t_status t \<noteq> ''completed'' \<and> t_status t \<noteq> ''overtimed'') ts"
  unfolding currentTask_def activeTasks_def find_filter Let_def
  by (rule find_cong) auto

lemma activeSchedule_state:
  "fst (activeSchedule e st) =
     (case find (\<lambda>s. endMinutes s \<le> nowMinutes (appTime st)
                      \<and> nowMinutes (appTime st) < endMinutes s + 20) (schedules st) of
        None \<Rightarrow> st
      | Some s \<Rightarrow>
          if find (isRunning (nowMinutes (appTime st))) (schedules st) = None
             \<and> nowMinutes (appTime st) = endMinutes s \<and> showNotification st = None
             \<and> localStorage st (''notified-'' @ s_id s) = None
          then st\<lparr>localStorage := (localStorage st)(''notified-'' @ s_id s \<mapsto> ''true''),
                  showNotification :=
                    Some \<lparr>p_phrase = random e mod 8, p_taskName = s_name s,
                          p_nextTask = map_option (\<lambda>n. (s_name n, s_startTime n))
                             (find (\<lambda>next. startMinutes next \<ge> endMinutes s + 20)
                                (schedules st))\<rparr>\<rparr>
          else st)"
proof (cases "find (isRunning (nowMinutes (appTime st))) (schedules st)")
  case (Some cur)
  then show ?thesis by (simp add: activeSchedule_eq split: option.splits)
next
  case None
  note running = None
  show ?thesis
  proof (cases "find (\<lambda>s. endMinutes s \<le> nowMinutes (appTime st)
                          \<and> nowMinutes (appTime st) < endMinutes s + 20) (schedules st)")
    case None
    with running show ?thesis by (simp add: activeSchedule_eq)
  next
    case (Some s)
    from find_Some_mem [OF Some]
    have "endMinutes s \<le> nowMinutes (appTime st) \<and> nowMinutes (appTime st) < endMinutes s + 20"
      by simp
    with running Some show ?thesis
      by (simp add: activeSchedule_eq overdueCallback_eq)
  qed
qed

lemma activeSchedule_emits:
  assumes "find (isRunning (nowMinutes (appTime st))) (schedules st) = None"
    and "find (\<lambda>s. endMinutes s \<le> nowMinutes (appTime st)
                   \<and> nowMinutes (appTime st) < endMinutes s + 20) (schedules st) = Some s"
    and "nowMinutes (appTime st) = endMinutes s" and "showNotification st = None"
    and "localStorage st (''notified-'' @ s_id s) = None"
  shows "fst (activeSchedule e st)
           = st\<lparr>localStorage := (localStorage st)(''notified-'' @ s_id s \<mapsto> ''true''),
                showNotification :=
                  Some \<lparr>p_phrase = random e mod 8, p_taskName = s_name s,
                        p_nextTask = map_option (\<lambda>n. (s_name n, s_startTime n))
                           (find (\<lambda>next. startMinutes next \<ge> endMinutes s + 20)
                              (schedules st))\<rparr>\<rparr>"
  using assms by (simp add: activeSchedule_state)

lemma activeSchedule_silent:
  assumes "\<not> (\<exists>s. find (isRunning (nowMinutes (appTime st))) (schedules st) = None
              \<and> find (\<lambda>s. endMinutes s \<le> nowMinutes (appTime st)
                           \<and> nowMinutes (appTime st) < endMinutes s + 20) (schedules st) = Some s
              \<and> nowMinutes (appTime st) = endMinutes s \<and> showNotification st = None
              \<and> localStorage st (''notified-'' @ s_id s) = None)"
  shows "fst (activeSchedule e st) = st"
  using assms by (auto simp: activeSchedule_state split: option.splits)

lemma sorted_fst_of_pairs:
  "sorted (map (\<lambda>x. (f x, g x)) xs) \<Longrightarrow> sorted (map f xs)"
  by (induction xs) (auto simp: less_eq_prod_def)

lemma sorted_onSnapshotSchedules:
  "sorted (map (\<lambda>s. stringOrder (s_startTime s)) (onSnapshotSchedules e items))"
  unfolding onSnapshotSchedules_def
  by (rule sorted_fst_of_pairs [where g = "\<lambda>s. engineOrder e (s_id s)"]) simp




subsection \<open>C1: the auto-advance is never reached\<close>

lemma ticks_store:
  "tasks (ticks es st) = tasks st \<and> history (ticks es st) = history st"
  by (induction es arbitrary: st) (simp_all add: tick_store)

lemma tickApp_store:
  "schedules (tickApp e st) = schedules st" "historyDocs (tickApp e st) = historyDocs st"
  by (simp_all add: tickApp_def activeSchedule_store)

lemma ticksApp_store:
  "schedules (ticksApp es st) = schedules st \<and> historyDocs (ticksApp es st) = historyDocs st"
  by (induction es arbitrary: st) (simp_all add: tickApp_store)

text \<open>
  C1 (what the code does). No run of clock ticks, however long and at whatever instants,
  changes the stored tasks or appends to the history, in either variant: the engine never
  resolves a block by itself. In the second variant \<open>handleOvertimeAdvance\<close> is called
  only when \<open>currentTime \<ge> end + 20 min\<close>, but the task reaches that test only as
  \<open>currentTask\<close>, which requires \<open>currentTime < end + 20 min\<close>: the timing effect, run
  on any state whatever, leaves the tasks and the history as they are (and as written
  not even the effect is reached: the render of \<open>MainScheduler\<close> throws on \<open>setSchedules\<close>,
  so that a second of its clock changes nothing at all).
  In the first variant the call sits inside \<open>nowMinutes < autoAdvanceMinutes\<close> and tests
  \<open>nowMinutes \<ge> autoAdvanceMinutes\<close>. The claim's auto-resolve at \<open>end + 20 min\<close>
  (history record with outcome overtime, status overtimed) therefore never happens.
\<close>

theorem auto_advance_never_fires:
  "tasks (ticks es st) = tasks st \<and> history (ticks es st) = history st
   \<and> schedules (ticksApp es' st') = schedules st'
   \<and> historyDocs (ticksApp es' st') = historyDocs st'
   \<and> tasks (timingEffect e st) = tasks st \<and> history (timingEffect e st) = history st
   \<and> MainScheduler_return e st = Inl (ReferenceError ''setSchedules'')
   \<and> tick e st = st"
  using ticks_store [of es st] ticksApp_store [of es' st'] timingEffect_store [of e st]
    MainScheduler_return_throws [of e st] tick_throws [of e st]
  by simp

text \<open>
  The failing input: a block from 09:00 to 10:00, no manual finish, ticks at 10:19:59,
  10:20:00, 10:20:01 and 10:25:00. The block is still pending and the history is empty;
  the timing effect of the second variant, run with the clock state at 10:20:00 or at
  10:25:00, changes nothing.
\<close>

theorem auto_advance_never_fires_witness:
  "map t_status (tasks (ticks (map envAt [clockAt 10 19 59, clockAt 10 20 0, clockAt 10 20 1, clockAt 10 25 0])
                          (schedulerWith [mkTask ''b'' 9 0 10 0] (clockAt 10 19 58))))
     = [''pending'']
   \<and> history (ticks (map envAt [clockAt 10 19 59, clockAt 10 20 0, clockAt 10 20 1, clockAt 10 25 0])
                 (schedulerWith [mkTask ''b'' 9 0 10 0] (clockAt 10 19 58))) = []
   \<and> schedules (ticksApp (map envAt [clockAt 10 19 59, clockAt 10 20 0, clockAt 10 20 1, clockAt 10 25 0])
                 (appWith [mkSchedule ''b'' 9 0 10 0] (clockAt 10 19 58)))
     = [mkSchedule ''b'' 9 0 10 0]
   \<and> historyDocs (ticksApp (map envAt [clockAt 10 19 59, clockAt 10 20 0, clockAt 10 20 1, clockAt 10 25 0])
                 (appWith [mkSchedule ''b'' 9 0 10 0] (clockAt 10 19 58))) = []
   \<and> timingEffect (envAt (clockAt 10 20 0)) (schedulerWith [mkTask ''b'' 9 0 10 0] (clockAt 10 20 0))
       = schedulerWith [mkTask ''b'' 9 0 10 0] (clockAt 10 20 0)
   \<and> timingEffect (envAt (clockAt 10 25 0)) (schedulerWith [mkTask ''b'' 9 0 10 0] (clockAt 10 25 0))
       = schedulerWith [mkTask ''b'' 9 0 10 0] (clockAt 10 25 0)"
proof -
  have eff: "\<And>d. clockAt 10 20 0 \<le> d \<Longrightarrow>
      timingEffect (envAt d) (schedulerWith [mkTask ''b'' 9 0 10 0] d)
        = schedulerWith [mkTask ''b'' 9 0 10 0] d"
    by (simp add: timingEffect_def currentTask_eq example_defs clock_defs)
  note run = auto_advance_never_fires
      [of "map envAt [clockAt 10 19 59, clockAt 10 20 0, clockAt 10 20 1, clockAt 10 25 0]"
          "schedulerWith [mkTask ''b'' 9 0 10 0] (clockAt 10 19 58)"
          "map envAt [clockAt 10 19 59, clockAt 10 20 0, clockAt 10 20 1, clockAt 10 25 0]"
          "appWith [mkSchedule ''b'' 9 0 10 0] (clockAt 10 19 58)"]
  from run [THEN conjunct1] run [THEN conjunct2, THEN conjunct1]
    run [THEN conjunct2, THEN conjunct2, THEN conjunct1]
    run [THEN conjunct2, THEN conjunct2, THEN conjunct2, THEN conjunct1]
  have "map t_status (tasks (ticks (map envAt [clockAt 10 19 59, clockAt 10 20 0, clockAt 10 20 1, clockAt 10 25 0])
                 (schedulerWith [mkTask ''b'' 9 0 10 0] (clockAt 10 19 58)))) = [''pending'']
   \<and> history (ticks (map envAt [clockAt 10 19 59, clockAt 10 20 0, clockAt 10 20 1, clockAt 10 25 0])
                 (schedulerWith [mkTask ''b'' 9 0 10 0] (clockAt 10 19 58))) = []
   \<and> schedules (ticksApp (map envAt [clockAt 10 19 59, clockAt 10 20 0, clockAt 10 20 1, clockAt 10 25 0])
                 (appWith [mkSchedule ''b'' 9 0 10 0] (clockAt 10 19 58)))
     = [mkSchedule ''b'' 9 0 10 0]
   \<and> historyDocs (ticksApp (map envAt [clockAt 10 19 59, clockAt 10 20 0, clockAt 10 20 1, clockAt 10 25 0])
                 (appWith [mkSchedule ''b'' 9 0 10 0] (clockAt 10 19 58))) = []"
    by (simp add: schedulerWith_def appWith_def mkTask_def)
  with eff [of "clockAt 10 20 0"] eff [of "clockAt 10 25 0"] show ?thesis
    by (simp add: clockAt_def)
qed

subsection \<open>C2: how a manual finish is classified\<close>

text \<open>
  C2 (as stated, at the first variant's \<open>handleFinishTask\<close>). The block ends at 10:00 and
  is finished by the button at 10:15:01, which is strictly later than the end plus the 15
  minutes of grace; the history document nevertheless says \<open>ON TIME\<close>, because the
  first variant compares whole minutes of the day (615 against 600 + 15).
\<close>

theorem manual_finish_outcome_counterexample:
  "clockAt 10 15 1 > timeStringToDate (hhmm 10 0) + 15 * 60000
   \<and> map hd_status
         (historyDocs (handleFinishTask (envAt (clockAt 10 15 1)) ''b'' None
                         (appWith [mkSchedule ''b'' 9 0 10 0] (clockAt 10 15 1))))
       = [''ON TIME'']"
  by (simp add: handleFinishTask_def Let_def lookup_deleteDoc addDoc_def example_defs clock_defs)

text \<open>
  C2 (amended). Second variant: a manual finish (\<open>handleFinished\<close>) of the current task
  whose history write is accepted appends exactly one record, whose outcome is
  \<open>overtimed\<close> if and only if the click's instant is strictly later than the scheduled end
  plus 15 minutes (to the millisecond) and \<open>on-time\<close> otherwise, and whose \<open>actualEnd\<close> is
  the clock face (hours and minutes) of that instant. First variant: a manual finish
  (\<open>handleFinishTask\<close> without override) that goes through appends exactly one document,
  whose status is \<open>OVERTIME\<close> if and only if the minute of the day of the click is
  greater than the end's minute plus 15, and whose \<open>finishedAt\<close> is the click's instant.
\<close>

theorem manual_finish_outcome:
  "(currentTask (currentTime st) (tasks st) = Some ct \<and> addDoc_ok e \<longrightarrow>
      history (handleFinished e st) =
        history st @
          [\<lparr>h_activity = t_activity ct, h_scheduledStart = t_startTime ct,
            h_scheduledEnd = t_endTime ct, h_actualEnd = toLocaleTimeString (clock e),
            h_status = (if clock e > timeStringToDate (t_endTime ct) + 15 * 60000
                        then ''overtimed'' else ''on-time''),
            h_date = isoDate e, h_userId = userId e\<rparr>])
   \<and> (db e' \<and> userId e' \<noteq> None \<and> taskId \<noteq> ''''
        \<and> find (\<lambda>s. s_id s = taskId) (schedules st') = Some task \<and> addDoc_ok e' \<longrightarrow>
      historyDocs (handleFinishTask e' taskId None st') =
        historyDocs st' @
          [\<lparr>hd_name = s_name task, hd_scheduledStartTime = s_startTime task,
            hd_scheduledEndTime = s_endTime task, hd_finishedAt = clock e',
            hd_status = (if nowMinutes (clock e') > endMinutes task + 15
                         then ''OVERTIME'' else ''ON TIME''),
            hd_durationMinutes = nowMinutes (clock e') - startMinutes task\<rparr>])"
  using handleFinished_history [of st ct e] handleFinishTask_history [of e' taskId st' task]
  by blast

text \<open>
  The block ending at 10:00: in the second variant a finish at 10:14:59 is on time and one
  at 10:15:01 is overtime, each recorded with the clock face of the click; in the first
  variant a finish at 10:14:59 is on time and the first overtime finish is at 10:16:00.
\<close>

theorem manual_finish_outcome_witness:
  "map (\<lambda>h. (h_status h, h_actualEnd h))
       (history (handleFinished (envAt (clockAt 10 14 59))
                   (schedulerWith [mkTask ''b'' 9 0 10 0] (clockAt 10 14 59))))
     = [(''on-time'', hhmm 10 14)]
   \<and> map (\<lambda>h. (h_status h, h_actualEnd h))
       (history (handleFinished (envAt (clockAt 10 15 1))
                   (schedulerWith [mkTask ''b'' 9 0 10 0] (clockAt 10 15 1))))
     = [(''overtimed'', hhmm 10 15)]
   \<and> map (\<lambda>h. (hd_status h, hd_finishedAt h))
       (historyDocs (handleFinishTask (envAt (clockAt 10 14 59)) ''b'' None
                       (appWith [mkSchedule ''b'' 9 0 10 0] (clockAt 10 14 59))))
     = [(''ON TIME'', clockAt 10 14 59)]
   \<and> map (\<lambda>h. (hd_status h, hd_finishedAt h))
       (historyDocs (handleFinishTask (envAt (clockAt 10 16 0)) ''b'' None
                       (appWith [mkSchedule ''b'' 9 0 10 0] (clockAt 10 16 0))))
     = [(''OVERTIME'', clockAt 10 16 0)]"
proof -
  have cur: "\<And>d. clockAt 9 0 0 \<le> d \<Longrightarrow> d < clockAt 10 20 0 \<Longrightarrow>
      currentTask (currentTime (schedulerWith [mkTask ''b'' 9 0 10 0] d))
        (tasks (schedulerWith [mkTask ''b'' 9 0 10 0] d)) = Some (mkTask ''b'' 9 0 10 0)"
    by (simp add: currentTask_def activeTasks_def Let_def example_defs clock_defs)
  have fnd: "\<And>d. find (\<lambda>s. s_id s = ''b'') (schedules (appWith [mkSchedule ''b'' 9 0 10 0] d))
      = Some (mkSchedule ''b'' 9 0 10 0)"
    by (simp add: example_defs)
  have envs: "\<And>d. addDoc_ok (envAt d) \<and> db (envAt d) \<and> userId (envAt d) \<noteq> None"
    by (simp add: envAt_def)
  have a: "history (handleFinished (envAt (clockAt 10 14 59))
                   (schedulerWith [mkTask ''b'' 9 0 10 0] (clockAt 10 14 59)))
      = [\<lparr>h_activity = ''b'', h_scheduledStart = hhmm 9 0, h_scheduledEnd = hhmm 10 0,
          h_actualEnd = hhmm 10 14, h_status = ''on-time'', h_date = ''2025-01-01'',
          h_userId = Some ''u1''\<rparr>]"
    using manual_finish_outcome
      [of "schedulerWith [mkTask ''b'' 9 0 10 0] (clockAt 10 14 59)" "mkTask ''b'' 9 0 10 0"
          "envAt (clockAt 10 14 59)"]
      cur [of "clockAt 10 14 59"] envs [of "clockAt 10 14 59"]
    by (simp add: example_defs clock_defs)
  have b: "history (handleFinished (envAt (clockAt 10 15 1))
                   (schedulerWith [mkTask ''b'' 9 0 10 0] (clockAt 10 15 1)))
      = [\<lparr>h_activity = ''b'', h_scheduledStart = hhmm 9 0, h_scheduledEnd = hhmm 10 0,
          h_actualEnd = hhmm 10 15, h_status = ''overtimed'', h_date = ''2025-01-01'',
          h_userId = Some ''u1''\<rparr>]"
    using manual_finish_outcome
      [of "schedulerWith [mkTask ''b'' 9 0 10 0] (clockAt 10 15 1)" "mkTask ''b'' 9 0 10 0"
          "envAt (clockAt 10 15 1)"]
      cur [of "clockAt 10 15 1"] envs [of "clockAt 10 15 1"]
    by (simp add: example_defs clock_defs)
  have c: "map (\<lambda>h. (hd_status h, hd_finishedAt h))
       (historyDocs (handleFinishTask (envAt (clockAt 10 14 59)) ''b'' None
                       (appWith [mkSchedule ''b'' 9 0 10 0] (clockAt 10 14 59))))
     = [(''ON TIME'', clockAt 10 14 59)]"
    using manual_finish_outcome
      [of _ _ _ "envAt (clockAt 10 14 59)" "''b''"
          "appWith [mkSchedule ''b'' 9 0 10 0] (clockAt 10 14 59)" "mkSchedule ''b'' 9 0 10 0"]
      fnd [of "clockAt 10 14 59"] envs [of "clockAt 10 14 59"]
    by (simp add: example_defs clock_defs)
  have d: "map (\<lambda>h. (hd_status h, hd_finishedAt h))
       (historyDocs (handleFinishTask (envAt (clockAt 10 16 0)) ''b'' None
                       (appWith [mkSchedule ''b'' 9 0 10 0] (clockAt 10 16 0))))
     = [(''OVERTIME'', clockAt 10 16 0)]"
    using manual_finish_outcome
      [of _ _ _ "envAt (clockAt 10 16 0)" "''b''"
          "appWith [mkSchedule ''b'' 9 0 10 0] (clockAt 10 16 0)" "mkSchedule ''b'' 9 0 10 0"]
      fnd [of "clockAt 10 16 0"] envs [of "clockAt 10 16 0"]
    by (simp add: example_defs clock_defs)
  show ?thesis
    using a b c d by simp
qed

subsection \<open>C3: the status a finish persists\<close>

text \<open>
  C3 (as stated, at the second variant's \<open>handleFinished\<close>). The block ends at 10:00 and
  is finished by the user at 10:16:00, later than the end plus 15 minutes: the history
  record is classified \<open>overtimed\<close>, but the persisted status of the block is
  \<open>completed\<close>, not \<open>overtimed\<close>.
\<close>

theorem finish_status_counterexample:
  "clockAt 10 16 0 > timeStringToDate (hhmm 10 0) + 15 * 60000
   \<and> map h_status (history (handleFinished (envAt (clockAt 10 16 0))
                               (schedulerWith [mkTask ''b'' 9 0 10 0] (clockAt 10 16 0))))
       = [''overtimed'']
   \<and> map t_status (tasks (handleFinished (envAt (clockAt 10 16 0))
                             (schedulerWith [mkTask ''b'' 9 0 10 0] (clockAt 10 16 0))))
       = [''completed'']"
  by (simp add: handleFinished_def effectIfChanged_def timingEffect_store updateTaskStatus_def
      logActivityToHistory_def setDoc_def addDoc_def onSnapshotTasks_def currentTask_def
      activeTasks_def noReminder_def Let_def example_defs clock_defs)

text \<open>
  C3 (amended). In the second variant a manual finish of the current task whose status
  write is accepted sets the persisted status of that block to \<open>completed\<close> in every
  case, whether the finish is classified on-time or overtime (the classification is kept
  in the history record only); the status \<open>overtimed\<close> is what \<open>handleOvertimeAdvance\<close>
  writes. Neither handler ever deletes a block: the stored list keeps its length and its
  ids, also when a write fails.
\<close>

theorem finish_status:
  "(currentTask (currentTime st) (tasks st) = Some ct \<and> setDoc_ok e \<longrightarrow>
      tasks (handleFinished e st) =
        onSnapshotTasks
          (map (\<lambda>t. if t_id t = t_id ct then t\<lparr>t_status := ''completed''\<rparr> else t) (tasks st))
      \<and> (\<forall>t \<in> set (tasks (handleFinished e st)). t_id t = t_id ct \<longrightarrow> t_status t = ''completed'')
      \<and> tasks (handleOvertimeAdvance e d st) =
        onSnapshotTasks
          (map (\<lambda>t. if t_id t = t_id ct then t\<lparr>t_status := ''overtimed''\<rparr> else t) (tasks st))
      \<and> (\<forall>t \<in> set (tasks (handleOvertimeAdvance e d st)). t_id t = t_id ct \<longrightarrow> t_status t = ''overtimed''))
   \<and> length (tasks (handleFinished e st)) = length (tasks st)
   \<and> t_id ` set (tasks (handleFinished e st)) = t_id ` set (tasks st)
   \<and> length (tasks (handleOvertimeAdvance e d st)) = length (tasks st)
   \<and> t_id ` set (tasks (handleOvertimeAdvance e d st)) = t_id ` set (tasks st)"
proof -
  have upd: "\<And>s. \<forall>t \<in> set (onSnapshotTasks
                 (map (\<lambda>t. if t_id t = t_id ct then t\<lparr>t_status := s\<rparr> else t) (tasks st))).
               t_id t = t_id ct \<longrightarrow> t_status t = s"
    by (auto simp: set_onSnapshotTasks split: if_splits)
  have written: "currentTask (currentTime st) (tasks st) = Some ct \<and> setDoc_ok e \<longrightarrow>
      tasks (handleFinished e st) =
        onSnapshotTasks
          (map (\<lambda>t. if t_id t = t_id ct then t\<lparr>t_status := ''completed''\<rparr> else t) (tasks st))
      \<and> (\<forall>t \<in> set (tasks (handleFinished e st)). t_id t = t_id ct \<longrightarrow> t_status t = ''completed'')
      \<and> tasks (handleOvertimeAdvance e d st) =
        onSnapshotTasks
          (map (\<lambda>t. if t_id t = t_id ct then t\<lparr>t_status := ''overtimed''\<rparr> else t) (tasks st))
      \<and> (\<forall>t \<in> set (tasks (handleOvertimeAdvance e d st)). t_id t = t_id ct \<longrightarrow> t_status t = ''overtimed'')"
  proof
    assume h: "currentTask (currentTime st) (tasks st) = Some ct \<and> setDoc_ok e"
    then have f: "tasks (handleFinished e st) =
        onSnapshotTasks
          (map (\<lambda>t. if t_id t = t_id ct then t\<lparr>t_status := ''completed''\<rparr> else t) (tasks st))"
      using handleFinished_tasks [of st ct e] by blast
    from h have o: "tasks (handleOvertimeAdvance e d st) =
        onSnapshotTasks
          (map (\<lambda>t. if t_id t = t_id ct then t\<lparr>t_status := ''overtimed''\<rparr> else t) (tasks st))"
      using handleOvertimeAdvance_tasks [of st ct e d] by blast
    have f': "\<forall>t \<in> set (tasks (handleFinished e st)). t_id t = t_id ct \<longrightarrow> t_status t = ''completed''"
      unfolding f by (rule upd)
    have o': "\<forall>t \<in> set (tasks (handleOvertimeAdvance e d st)). t_id t = t_id ct \<longrightarrow> t_status t = ''overtimed''"
      unfolding o by (rule upd)
    from f f' o o' show "tasks (handleFinished e st) =
        onSnapshotTasks
          (map (\<lambda>t. if t_id t = t_id ct then t\<lparr>t_status := ''completed''\<rparr> else t) (tasks st))
      \<and> (\<forall>t \<in> set (tasks (handleFinished e st)). t_id t = t_id ct \<longrightarrow> t_status t = ''completed'')
      \<and> tasks (handleOvertimeAdvance e d st) =
        onSnapshotTasks
          (map (\<lambda>t. if t_id t = t_id ct then t\<lparr>t_status := ''overtimed''\<rparr> else t) (tasks st))
      \<and> (\<forall>t \<in> set (tasks (handleOvertimeAdvance e d st)). t_id t = t_id ct \<longrightarrow> t_status t = ''overtimed'')"
      by (intro conjI)
  qed
  from written handleFinished_keeps_blocks [of e st] handleOvertimeAdvance_keeps_blocks [of e d st]
  show ?thesis by (intro conjI) (erule conjunct1 conjunct2 | assumption)+
qed

text \<open>
  Two tasks, 09:00 to 10:00 and 10:00 to 11:00. A manual finish of the first at 10:05:00
  (on time) and one at 10:16:00 (overtime) both leave it stored as \<open>completed\<close>, and the
  second task as it was.
\<close>

theorem finish_status_witness:
  "map (\<lambda>t. (t_id t, t_status t))
       (tasks (handleFinished (envAt (clockAt 10 5 0))
                 (schedulerWith [mkTask ''b'' 9 0 10 0, mkTask ''a'' 10 0 11 0] (clockAt 10 5 0))))
     = [(''b'', ''completed''), (''a'', ''pending'')]
   \<and> map (\<lambda>t. (t_id t, t_status t))
       (tasks (handleFinished (envAt (clockAt 10 16 0))
                 (schedulerWith [mkTask ''b'' 9 0 10 0, mkTask ''a'' 10 0 11 0] (clockAt 10 16 0))))
     = [(''b'', ''completed''), (''a'', ''pending'')]"
proof -
  have cur: "\<And>d. clockAt 9 0 0 \<le> d \<Longrightarrow> d < clockAt 10 20 0 \<Longrightarrow>
      currentTask (currentTime (schedulerWith [mkTask ''b'' 9 0 10 0, mkTask ''a'' 10 0 11 0] d))
        (tasks (schedulerWith [mkTask ''b'' 9 0 10 0, mkTask ''a'' 10 0 11 0] d))
      = Some (mkTask ''b'' 9 0 10 0)"
    by (simp add: currentTask_def activeTasks_def Let_def example_defs clock_defs)
  have ok: "\<And>d. setDoc_ok (envAt d)"
    by (simp add: envAt_def)
  have sorted: "onSnapshotTasks [(mkTask ''b'' 9 0 10 0)\<lparr>t_status := ''completed''\<rparr>, mkTask ''a'' 10 0 11 0]
      = [(mkTask ''b'' 9 0 10 0)\<lparr>t_status := ''completed''\<rparr>, mkTask ''a'' 10 0 11 0]"
    by (simp add: onSnapshotTasks_def stringOrder_def example_defs)
  have a: "tasks (handleFinished (envAt (clockAt 10 5 0))
                 (schedulerWith [mkTask ''b'' 9 0 10 0, mkTask ''a'' 10 0 11 0] (clockAt 10 5 0)))
      = [(mkTask ''b'' 9 0 10 0)\<lparr>t_status := ''completed''\<rparr>, mkTask ''a'' 10 0 11 0]"
    using finish_status
      [of "schedulerWith [mkTask ''b'' 9 0 10 0, mkTask ''a'' 10 0 11 0] (clockAt 10 5 0)"
          "mkTask ''b'' 9 0 10 0" "envAt (clockAt 10 5 0)"]
      cur [of "clockAt 10 5 0"] ok [of "clockAt 10 5 0"] sorted
    by (simp add: example_defs)
  have b: "tasks (handleFinished (envAt (clockAt 10 16 0))
                 (schedulerWith [mkTask ''b'' 9 0 10 0, mkTask ''a'' 10 0 11 0] (clockAt 10 16 0)))
      = [(mkTask ''b'' 9 0 10 0)\<lparr>t_status := ''completed''\<rparr>, mkTask ''a'' 10 0 11 0]"
    using finish_status
      [of "schedulerWith [mkTask ''b'' 9 0 10 0, mkTask ''a'' 10 0 11 0] (clockAt 10 16 0)"
          "mkTask ''b'' 9 0 10 0" "envAt (clockAt 10 16 0)"]
      cur [of "clockAt 10 16 0"] ok [of "clockAt 10 16 0"] sorted
    by (simp add: example_defs)
  show ?thesis
    unfolding a b by (simp add: example_defs)
qed

subsection \<open>C4: what computing the active schedule changes\<close>

text \<open>
  C4 (as stated, at \<open>activeSchedule\<close>). A schedule ends at 10:00, nothing is running, no
  popup is showing and no flag is stored; computing the active schedule at 10:00:00 sets
  the flag \<open>notified-b\<close> in \<open>localStorage\<close> and raises the popup: the query changes
  observable state.
\<close>

theorem activeSchedule_query_counterexample:
  "showNotification (appWith [mkSchedule ''b'' 9 0 10 0] (clockAt 10 0 0)) = None
   \<and> localStorage (appWith [mkSchedule ''b'' 9 0 10 0] (clockAt 10 0 0)) ''notified-b'' = None
   \<and> showNotification (fst (activeSchedule (envAt (clockAt 10 0 0))
                               (appWith [mkSchedule ''b'' 9 0 10 0] (clockAt 10 0 0))))
       = Some \<lparr>p_phrase = 0, p_taskName = ''b'', p_nextTask = None\<rparr>
   \<and> localStorage (fst (activeSchedule (envAt (clockAt 10 0 0))
                           (appWith [mkSchedule ''b'' 9 0 10 0] (clockAt 10 0 0)))) ''notified-b''
       = Some ''true''"
  by (simp add: activeSchedule_eq overdueCallback_eq isRunning_def example_defs clock_defs)

text \<open>
  C4 (amended). The value of \<open>activeSchedule\<close> is a function of the current time and
  the block set alone: two calls with the same \<open>currentTime\<close> and \<open>schedules\<close> return
  the same value, whatever the popup, the flags, the history and the environment are. The
  computation never changes the stored blocks or the history, and a second call right
  after the first changes nothing more and returns the same value. It is not free of
  effects: when no block is running, the selected block (the first listed one within 20
  minutes after its end) has its end minute equal to the current minute, no popup is
  showing and the block has no \<open>notified-\<close> flag, the computation stores the flag
  \<open>notified-<id>\<close> and raises the popup for that block, naming as next the first listed
  block that starts 20 minutes or more after that end. In every other case it changes
  nothing.
\<close>

theorem activeSchedule_query:
  "(appTime st = appTime st' \<and> schedules st = schedules st' \<longrightarrow>
      snd (activeSchedule e st) = snd (activeSchedule e' st'))
   \<and> schedules (fst (activeSchedule e st)) = schedules st
   \<and> historyDocs (fst (activeSchedule e st)) = historyDocs st
   \<and> activeSchedule e' (fst (activeSchedule e st)) = activeSchedule e st
   \<and> (find (isRunning (nowMinutes (appTime st))) (schedules st) = None
      \<and> find (\<lambda>s. endMinutes s \<le> nowMinutes (appTime st)
                   \<and> nowMinutes (appTime st) < endMinutes s + 20) (schedules st) = Some s
      \<and> nowMinutes (appTime st) = endMinutes s
      \<and> showNotification st = None
      \<and> localStorage st (''notified-'' @ s_id s) = None \<longrightarrow>
        fst (activeSchedule e st)
          = st\<lparr>localStorage := (localStorage st)(''notified-'' @ s_id s \<mapsto> ''true''),
               showNotification :=
                 Some \<lparr>p_phrase = random e mod 8, p_taskName = s_name s,
                       p_nextTask = map_option (\<lambda>n. (s_name n, s_startTime n))
                          (find (\<lambda>next. startMinutes next \<ge> endMinutes s + 20)
                             (schedules st))\<rparr>\<rparr>)
   \<and> (\<not> (\<exists>s. find (isRunning (nowMinutes (appTime st))) (schedules st) = None
            \<and> find (\<lambda>s. endMinutes s \<le> nowMinutes (appTime st)
                         \<and> nowMinutes (appTime st) < endMinutes s + 20) (schedules st) = Some s
            \<and> nowMinutes (appTime st) = endMinutes s
            \<and> showNotification st = None
            \<and> localStorage st (''notified-'' @ s_id s) = None) \<longrightarrow>
        fst (activeSchedule e st) = st)"
proof (intro conjI impI)
  assume "appTime st = appTime st' \<and> schedules st = schedules st'"
  then show "snd (activeSchedule e st) = snd (activeSchedule e' st')"
    using activeSchedule_result [of st st' e e'] by simp
next
  show "schedules (fst (activeSchedule e st)) = schedules st"
    by (rule activeSchedule_store)
next
  show "historyDocs (fst (activeSchedule e st)) = historyDocs st"
    by (rule activeSchedule_store)
next
  show "activeSchedule e' (fst (activeSchedule e st)) = activeSchedule e st"
    by (rule activeSchedule_again)
next
  assume "find (isRunning (nowMinutes (appTime st))) (schedules st) = None
      \<and> find (\<lambda>s. endMinutes s \<le> nowMinutes (appTime st)
                   \<and> nowMinutes (appTime st) < endMinutes s + 20) (schedules st) = Some s
      \<and> nowMinutes (appTime st) = endMinutes s
      \<and> showNotification st = None
      \<and> localStorage st (''notified-'' @ s_id s) = None"
  then show "fst (activeSchedule e st)
          = st\<lparr>localStorage := (localStorage st)(''notified-'' @ s_id s \<mapsto> ''true''),
               showNotification :=
                 Some \<lparr>p_phrase = random e mod 8, p_taskName = s_name s,
                       p_nextTask = map_option (\<lambda>n. (s_name n, s_startTime n))
                          (find (\<lambda>next. startMinutes next \<ge> endMinutes s + 20)
                             (schedules st))\<rparr>\<rparr>"
    using activeSchedule_emits [of st s e] by blast
next
  assume "\<not> (\<exists>s. find (isRunning (nowMinutes (appTime st))) (schedules st) = None
            \<and> find (\<lambda>s. endMinutes s \<le> nowMinutes (appTime st)
                         \<and> nowMinutes (appTime st) < endMinutes s + 20) (schedules st) = Some s
            \<and> nowMinutes (appTime st) = endMinutes s
            \<and> showNotification st = None
            \<and> localStorage st (''notified-'' @ s_id s) = None)"
  then show "fst (activeSchedule e st) = st"
    by (rule activeSchedule_silent)
qed

text \<open>
  The schedule from 09:00 to 10:00, followed by one from 10:30 to 11:00. At 10:00:00 the
  first call stores the flag \<open>notified-b\<close> and raises the popup for \<open>b\<close> with \<open>c\<close> as
  next; a second call on the resulting state returns the same block and changes nothing
  more. At 10:01:00, not the end minute, the call changes nothing.
\<close>

theorem activeSchedule_query_witness:
  "fst (activeSchedule (envAt (clockAt 10 0 0))
          (appWith [mkSchedule ''b'' 9 0 10 0, mkSchedule ''c'' 10 30 11 0] (clockAt 10 0 0)))
     = (appWith [mkSchedule ''b'' 9 0 10 0, mkSchedule ''c'' 10 30 11 0] (clockAt 10 0 0))
         \<lparr>localStorage := [''notified-b'' \<mapsto> ''true''],
          showNotification :=
            Some \<lparr>p_phrase = 0, p_taskName = ''b'', p_nextTask = Some (''c'', hhmm 10 30)\<rparr>\<rparr>
   \<and> snd (activeSchedule (envAt (clockAt 10 0 1))
           (fst (activeSchedule (envAt (clockAt 10 0 0))
                   (appWith [mkSchedule ''b'' 9 0 10 0, mkSchedule ''c'' 10 30 11 0] (clockAt 10 0 0)))))
     = Some \<lparr>a_schedule = mkSchedule ''b'' 9 0 10 0, a_status = None, a_minutesPastDue = None\<rparr>
   \<and> fst (activeSchedule (envAt (clockAt 10 0 1))
           (fst (activeSchedule (envAt (clockAt 10 0 0))
                   (appWith [mkSchedule ''b'' 9 0 10 0, mkSchedule ''c'' 10 30 11 0] (clockAt 10 0 0)))))
     = fst (activeSchedule (envAt (clockAt 10 0 0))
             (appWith [mkSchedule ''b'' 9 0 10 0, mkSchedule ''c'' 10 30 11 0] (clockAt 10 0 0)))
   \<and> fst (activeSchedule (envAt (clockAt 10 1 0))
          (appWith [mkSchedule ''b'' 9 0 10 0, mkSchedule ''c'' 10 30 11 0] (clockAt 10 1 0)))
     = appWith [mkSchedule ''b'' 9 0 10 0, mkSchedule ''c'' 10 30 11 0] (clockAt 10 1 0)"
proof -
  let ?bc = "[mkSchedule ''b'' 9 0 10 0, mkSchedule ''c'' 10 30 11 0]"
  let ?st = "appWith ?bc (clockAt 10 0 0)"
  let ?st1 = "fst (activeSchedule (envAt (clockAt 10 0 0)) ?st)"
  let ?late = "appWith ?bc (clockAt 10 1 0)"
  have v: "snd (activeSchedule (envAt (clockAt 10 0 0)) ?st)
     = Some \<lparr>a_schedule = mkSchedule ''b'' 9 0 10 0, a_status = None, a_minutesPastDue = None\<rparr>"
    by (simp add: activeSchedule_eq isRunning_def example_defs clock_defs)
  have same: "appTime ?st1 = appTime ?st \<and> schedules ?st1 = schedules ?st"
    by (simp add: activeSchedule_store)
  have cond: "find (isRunning (nowMinutes (appTime ?st))) (schedules ?st) = None
      \<and> find (\<lambda>s. endMinutes s \<le> nowMinutes (appTime ?st)
                   \<and> nowMinutes (appTime ?st) < endMinutes s + 20) (schedules ?st)
          = Some (mkSchedule ''b'' 9 0 10 0)
      \<and> nowMinutes (appTime ?st) = endMinutes (mkSchedule ''b'' 9 0 10 0)
      \<and> showNotification ?st = None
      \<and> localStorage ?st (''notified-'' @ s_id (mkSchedule ''b'' 9 0 10 0)) = None"
    by (simp add: isRunning_def example_defs clock_defs)
  have quiet: "\<not> (\<exists>s. find (isRunning (nowMinutes (appTime ?late))) (schedules ?late) = None
            \<and> find (\<lambda>s. endMinutes s \<le> nowMinutes (appTime ?late)
                         \<and> nowMinutes (appTime ?late) < endMinutes s + 20) (schedules ?late) = Some s
            \<and> nowMinutes (appTime ?late) = endMinutes s
            \<and> showNotification ?late = None
            \<and> localStorage ?late (''notified-'' @ s_id s) = None)"
    by (auto simp: isRunning_def example_defs clock_defs)
  note inst = activeSchedule_query
      [of ?st1 ?st "envAt (clockAt 10 0 1)" "envAt (clockAt 10 0 0)"]
  note emit = activeSchedule_query
      [of ?st ?st "envAt (clockAt 10 0 0)" "envAt (clockAt 10 0 0)" "mkSchedule ''b'' 9 0 10 0"]
  note late = activeSchedule_query
      [of ?late ?late "envAt (clockAt 10 1 0)" "envAt (clockAt 10 1 0)"]
  from inst [THEN conjunct1, THEN mp, OF same]
  have val_eq: "snd (activeSchedule (envAt (clockAt 10 0 1)) ?st1)
      = snd (activeSchedule (envAt (clockAt 10 0 0)) ?st)" .
  have again: "activeSchedule (envAt (clockAt 10 0 1)) ?st1
     = activeSchedule (envAt (clockAt 10 0 0)) ?st"
    by (rule activeSchedule_again)
  from emit [THEN conjunct2, THEN conjunct2, THEN conjunct2, THEN conjunct2, THEN conjunct1,
      THEN mp, OF cond]
  have first: "?st1 = ?st\<lparr>localStorage := [''notified-b'' \<mapsto> ''true''],
          showNotification :=
            Some \<lparr>p_phrase = 0, p_taskName = ''b'', p_nextTask = Some (''c'', hhmm 10 30)\<rparr>\<rparr>"
    by (simp add: example_defs clock_defs)
  from late [THEN conjunct2, THEN conjunct2, THEN conjunct2, THEN conjunct2, THEN conjunct2,
      THEN mp, OF quiet]
  have last: "fst (activeSchedule (envAt (clockAt 10 1 0)) ?late) = ?late" .
  show ?thesis
    unfolding val_eq using v again first last by simp
qed
subsection \<open>C5: which overdue block is selected\<close>

text \<open>
  C5 (as stated, at \<open>activeSchedule\<close>). First, the claim's own example: B ends at 09:00,
  C ends at 09:30, the time is 09:40 and nothing is running. The value is C, not B: at
  09:40 B is past its end plus 20 minutes and no longer selected. Second, with B from
  09:00 to 09:35 and C from 09:10 to 09:30, both within their grace at 09:40, the value
  is B, the first in start order, although C has the earlier end.
\<close>

theorem overdue_selection_counterexample:
  "map_option (\<lambda>a. s_id (a_schedule a))
     (snd (activeSchedule (envAt (clockAt 9 40 0))
             (appWith [mkSchedule ''B'' 8 0 9 0, mkSchedule ''C'' 8 30 9 30] (clockAt 9 40 0))))
     = Some ''C''
   \<and> map_option (\<lambda>a. (s_id (a_schedule a), s_endTime (a_schedule a)))
     (snd (activeSchedule (envAt (clockAt 9 40 0))
             (appWith [mkSchedule ''B'' 9 0 9 35, mkSchedule ''C'' 9 10 9 30] (clockAt 9 40 0))))
     = Some (''B'', hhmm 9 35)"
  by (simp add: activeSchedule_eq overdueCallback_eq isRunning_def example_defs clock_defs)

lemma sorted_first_least:
  assumes "sorted (map f xs)" and "find P xs = Some x" and "y \<in> set xs" and "P y"
  shows "f x \<le> f y"
proof -
  from find_Some_split [OF assms(2)] obtain ys zs
    where xs: "xs = ys @ x # zs" and no: "\<forall>y\<in>set ys. \<not> P y"
    by blast
  from assms(3,4) no xs have "y = x \<or> y \<in> set zs" by auto
  moreover from assms(1) xs have "\<forall>z\<in>set zs. f x \<le> f z"
    by (simp add: sorted_append)
  ultimately show ?thesis by auto
qed

lemma activeSchedule_overdue:
  assumes "find (isRunning (nowMinutes (appTime st))) (schedules st) = None"
  shows "map_option a_schedule (snd (activeSchedule e st)) =
           find (\<lambda>s. endMinutes s \<le> nowMinutes (appTime st)
                       \<and> nowMinutes (appTime st) < endMinutes s + 20) (schedules st)"
  using assms by (simp add: activeSchedule_eq split: option.splits)

text \<open>
  C5 (amended). When no block is running, the block returned is the first one in list
  order, which is the listener's start-time order, that is within 20 minutes after its
  end (\<open>end \<le> now < end + 20\<close>, in minutes of the day), and nothing is returned when
  there is none. It is the one with the earliest end whenever the ends are in the same
  order as the list. A block whose end is 20 minutes or more in the past is not selected.
  (The listener's list is in start order whatever the engine does with equal starts.)
\<close>

theorem overdue_selection:
  "(find (isRunning (nowMinutes (appTime st))) (schedules st) = None \<longrightarrow>
      map_option a_schedule (snd (activeSchedule e st)) =
        find (\<lambda>s. endMinutes s \<le> nowMinutes (appTime st)
                    \<and> nowMinutes (appTime st) < endMinutes s + 20) (schedules st))
   \<and> (find (isRunning (nowMinutes (appTime st))) (schedules st) = None
        \<and> snd (activeSchedule e st) = Some a \<and> sorted (map endMinutes (schedules st)) \<longrightarrow>
      (\<forall>s \<in> set (schedules st).
          endMinutes s \<le> nowMinutes (appTime st) \<and> nowMinutes (appTime st) < endMinutes s + 20
          \<longrightarrow> endMinutes (a_schedule a) \<le> endMinutes s))
   \<and> sorted (map (\<lambda>s. stringOrder (s_startTime s)) (onSnapshotSchedules e' items))"
proof (intro conjI impI ballI)
  assume "find (isRunning (nowMinutes (appTime st))) (schedules st) = None"
  then show "map_option a_schedule (snd (activeSchedule e st)) =
        find (\<lambda>s. endMinutes s \<le> nowMinutes (appTime st)
                    \<and> nowMinutes (appTime st) < endMinutes s + 20) (schedules st)"
    by (rule activeSchedule_overdue)
next
  fix s
  assume h: "find (isRunning (nowMinutes (appTime st))) (schedules st) = None
        \<and> snd (activeSchedule e st) = Some a \<and> sorted (map endMinutes (schedules st))"
    and s: "s \<in> set (schedules st)"
    and w: "endMinutes s \<le> nowMinutes (appTime st) \<and> nowMinutes (appTime st) < endMinutes s + 20"
  from h activeSchedule_overdue [of st e]
  have "find (\<lambda>s. endMinutes s \<le> nowMinutes (appTime st)
                  \<and> nowMinutes (appTime st) < endMinutes s + 20) (schedules st)
        = Some (a_schedule a)"
    by simp
  with h s w show "endMinutes (a_schedule a) \<le> endMinutes s"
    using sorted_first_least
      [of endMinutes "schedules st"
          "\<lambda>s. endMinutes s \<le> nowMinutes (appTime st) \<and> nowMinutes (appTime st) < endMinutes s + 20"
          "a_schedule a" s]
    by blast
next
  show "sorted (map (\<lambda>s. stringOrder (s_startTime s)) (onSnapshotSchedules e' items))"
    by (rule sorted_onSnapshotSchedules)
qed

text \<open>
  B from 08:00 to 09:25 and C from 08:30 to 09:30, both within their grace at 09:40 and
  listed in start order: the value is B, whose end is the earliest.
\<close>

theorem overdue_selection_witness:
  "map_option a_schedule
     (snd (activeSchedule (envAt (clockAt 9 40 0))
          (appWith (onSnapshotSchedules (envAt (clockAt 9 40 0)) [mkSchedule ''C'' 8 30 9 30, mkSchedule ''B'' 8 0 9 25])
             (clockAt 9 40 0))))
     = Some (mkSchedule ''B'' 8 0 9 25)
   \<and> onSnapshotSchedules (envAt (clockAt 9 40 0)) [mkSchedule ''C'' 8 30 9 30, mkSchedule ''B'' 8 0 9 25]
     = [mkSchedule ''B'' 8 0 9 25, mkSchedule ''C'' 8 30 9 30]"
proof -
  have order: "onSnapshotSchedules (envAt (clockAt 9 40 0)) [mkSchedule ''C'' 8 30 9 30, mkSchedule ''B'' 8 0 9 25]
     = [mkSchedule ''B'' 8 0 9 25, mkSchedule ''C'' 8 30 9 30]"
    by (simp add: onSnapshotSchedules_def stringOrder_def less_eq_prod_def example_defs)
  have none: "find (isRunning (nowMinutes (appTime
                (appWith [mkSchedule ''B'' 8 0 9 25, mkSchedule ''C'' 8 30 9 30] (clockAt 9 40 0)))))
              (schedules (appWith [mkSchedule ''B'' 8 0 9 25, mkSchedule ''C'' 8 30 9 30] (clockAt 9 40 0)))
              = None"
    by (simp add: isRunning_def example_defs clock_defs)
  have "map_option a_schedule
     (snd (activeSchedule (envAt (clockAt 9 40 0))
          (appWith [mkSchedule ''B'' 8 0 9 25, mkSchedule ''C'' 8 30 9 30] (clockAt 9 40 0))))
     = Some (mkSchedule ''B'' 8 0 9 25)"
    using overdue_selection
      [of "appWith [mkSchedule ''B'' 8 0 9 25, mkSchedule ''C'' 8 30 9 30] (clockAt 9 40 0)"
          "envAt (clockAt 9 40 0)"] none
    by (simp add: example_defs clock_defs)
  with order show ?thesis by simp
qed

subsection \<open>C6: a running block and an overdue block\<close>

text \<open>
  C6 (as stated, at the second variant's \<open>currentTask\<close>). B runs from 09:00 to 10:00 and
  was not finished, A runs from 10:00 to 11:00. At 10:05:00 A is running and B is in its
  grace, and the current task is B.
\<close>

theorem running_priority_counterexample:
  "timeStringToDate (t_startTime (mkTask ''A'' 10 0 11 0)) \<le> clockAt 10 5 0
   \<and> clockAt 10 5 0 < timeStringToDate (t_endTime (mkTask ''A'' 10 0 11 0))
   \<and> timeStringToDate (t_endTime (mkTask ''B'' 9 0 10 0)) \<le> clockAt 10 5 0
   \<and> clockAt 10 5 0 < timeStringToDate (t_endTime (mkTask ''B'' 9 0 10 0)) + 15 * 60000
   \<and> currentTask (clockAt 10 5 0) [mkTask ''B'' 9 0 10 0, mkTask ''A'' 10 0 11 0]
       = Some (mkTask ''B'' 9 0 10 0)"
  by (simp add: currentTask_eq example_defs clock_defs)

lemma activeSchedule_running:
  assumes "A \<in> set (schedules st)" and "isRunning (nowMinutes (appTime st)) A"
  shows "\<exists>cur. snd (activeSchedule e st)
                  = Some \<lparr>a_schedule = cur, a_status = Some ''RUNNING'', a_minutesPastDue = None\<rparr>
               \<and> find (isRunning (nowMinutes (appTime st))) (schedules st) = Some cur
               \<and> cur \<in> set (schedules st) \<and> isRunning (nowMinutes (appTime st)) cur"
proof (cases "find (isRunning (nowMinutes (appTime st))) (schedules st)")
  case None
  with assms show ?thesis by (auto simp: find_None_iff)
next
  case (Some cur)
  with find_Some_mem [OF Some] show ?thesis
    by (simp add: activeSchedule_eq)
qed

lemma activeSchedule_None_iff:
  "snd (activeSchedule e st) = None \<longleftrightarrow>
     (\<forall>s \<in> set (schedules st).
         \<not> isRunning (nowMinutes (appTime st)) s
         \<and> \<not> (endMinutes s \<le> nowMinutes (appTime st)
              \<and> nowMinutes (appTime st) < endMinutes s + 20))"
proof (cases "find (isRunning (nowMinutes (appTime st))) (schedules st)")
  case (Some cur)
  with find_Some_mem [OF Some] show ?thesis
    by (auto simp: activeSchedule_eq)
next
  case None
  then have "\<forall>s \<in> set (schedules st). \<not> isRunning (nowMinutes (appTime st)) s"
    by (simp add: find_None_iff)
  moreover have "snd (activeSchedule e st) = None \<longleftrightarrow>
      find (\<lambda>s. endMinutes s \<le> nowMinutes (appTime st)
                \<and> nowMinutes (appTime st) < endMinutes s + 20) (schedules st) = None"
    using activeSchedule_overdue [OF None, of e] by (cases "snd (activeSchedule e st)") (auto dest: sym)
  ultimately show ?thesis
    by (simp add: find_None_iff) blast
qed

lemma currentTask_None_iff:
  "currentTask now ts = None \<longleftrightarrow>
     (\<forall>t \<in> set ts.
         t_status t = ''completed'' \<or> t_status t = ''overtimed''
         \<or> now < timeStringToDate (t_startTime t)
         \<or> timeStringToDate (t_endTime t) + 20 * 60000 \<le> now)"
  unfolding currentTask_eq find_None_iff
  by (intro iffI ballI; force simp: not_le not_less)

lemma currentTask_first:
  assumes "ts = ys @ A # zs"
    and "timeStringToDate (t_startTime A) \<le> now"
    and "now < timeStringToDate (t_endTime A) + 20 * 60000"
    and "t_status A \<noteq> ''completed''" and "t_status A \<noteq> ''overtimed''"
    and "\<forall>t \<in> set ys.
           t_status t = ''completed'' \<or> t_status t = ''overtimed''
           \<or> now < timeStringToDate (t_startTime t)
           \<or> timeStringToDate (t_endTime t) + 20 * 60000 \<le> now"
  shows "currentTask now ts = Some A"
  unfolding currentTask_eq assms(1)
  by (rule find_first) (use assms in auto)

text \<open>
  C6 (amended). First variant: whenever some block A is running, \<open>activeSchedule\<close>
  returns a running block with status \<open>RUNNING\<close>, the first running one in list order,
  whatever blocks are in their grace or overdue; it returns A itself when A is listed
  before every other running block. Second variant: \<open>currentTask\<close> is the first block in
  list order that is not completed or overtimed and has \<open>start \<le> now < end + 20 min\<close>;
  a running block A is returned exactly when no block listed before it is still unfinished
  and within 20 minutes after its end, so an unfinished earlier block in its grace or
  overdue is returned ahead of A. In both variants the result is empty exactly when no
  (non-terminal) block is running or within 20 minutes after its end.
\<close>

theorem running_priority:
  "(A \<in> set (schedules st) \<and> isRunning (nowMinutes (appTime st)) A \<longrightarrow>
      (\<exists>cur. snd (activeSchedule e st)
                 = Some \<lparr>a_schedule = cur, a_status = Some ''RUNNING'', a_minutesPastDue = None\<rparr>
             \<and> find (isRunning (nowMinutes (appTime st))) (schedules st) = Some cur
             \<and> cur \<in> set (schedules st) \<and> isRunning (nowMinutes (appTime st)) cur))
   \<and> (schedules st = pre @ A # post \<and> isRunning (nowMinutes (appTime st)) A
        \<and> (\<forall>s \<in> set pre. \<not> isRunning (nowMinutes (appTime st)) s) \<longrightarrow>
      snd (activeSchedule e st)
        = Some \<lparr>a_schedule = A, a_status = Some ''RUNNING'', a_minutesPastDue = None\<rparr>)
   \<and> (snd (activeSchedule e st) = None \<longleftrightarrow>
        (\<forall>s \<in> set (schedules st).
            \<not> isRunning (nowMinutes (appTime st)) s
            \<and> \<not> (endMinutes s \<le> nowMinutes (appTime st)
                 \<and> nowMinutes (appTime st) < endMinutes s + 20)))
   \<and> (ts = ys @ T # zs
        \<and> timeStringToDate (t_startTime T) \<le> now
        \<and> now < timeStringToDate (t_endTime T) + 20 * 60000
        \<and> t_status T \<noteq> ''completed'' \<and> t_status T \<noteq> ''overtimed''
        \<and> (\<forall>t \<in> set ys.
              t_status t = ''completed'' \<or> t_status t = ''overtimed''
              \<or> now < timeStringToDate (t_startTime t)
              \<or> timeStringToDate (t_endTime t) + 20 * 60000 \<le> now) \<longrightarrow>
      currentTask now ts = Some T)
   \<and> (currentTask now ts = None \<longleftrightarrow>
        (\<forall>t \<in> set ts.
            t_status t = ''completed'' \<or> t_status t = ''overtimed''
            \<or> now < timeStringToDate (t_startTime t)
            \<or> timeStringToDate (t_endTime t) + 20 * 60000 \<le> now))"
proof (intro conjI)
  show "A \<in> set (schedules st) \<and> isRunning (nowMinutes (appTime st)) A \<longrightarrow>
      (\<exists>cur. snd (activeSchedule e st)
                 = Some \<lparr>a_schedule = cur, a_status = Some ''RUNNING'', a_minutesPastDue = None\<rparr>
             \<and> find (isRunning (nowMinutes (appTime st))) (schedules st) = Some cur
             \<and> cur \<in> set (schedules st) \<and> isRunning (nowMinutes (appTime st)) cur)"
    using activeSchedule_running [of A st e] by blast
next
  show "schedules st = pre @ A # post \<and> isRunning (nowMinutes (appTime st)) A
        \<and> (\<forall>s \<in> set pre. \<not> isRunning (nowMinutes (appTime st)) s) \<longrightarrow>
      snd (activeSchedule e st)
        = Some \<lparr>a_schedule = A, a_status = Some ''RUNNING'', a_minutesPastDue = None\<rparr>"
  proof
    assume h: "schedules st = pre @ A # post \<and> isRunning (nowMinutes (appTime st)) A
        \<and> (\<forall>s \<in> set pre. \<not> isRunning (nowMinutes (appTime st)) s)"
    then have "find (isRunning (nowMinutes (appTime st))) (pre @ A # post) = Some A"
      by (intro find_first) simp_all
    with h show "snd (activeSchedule e st)
        = Some \<lparr>a_schedule = A, a_status = Some ''RUNNING'', a_minutesPastDue = None\<rparr>"
      by (simp add: activeSchedule_eq)
  qed
next
  show "snd (activeSchedule e st) = None \<longleftrightarrow>
        (\<forall>s \<in> set (schedules st).
            \<not> isRunning (nowMinutes (appTime st)) s
            \<and> \<not> (endMinutes s \<le> nowMinutes (appTime st)
                 \<and> nowMinutes (appTime st) < endMinutes s + 20))"
    by (rule activeSchedule_None_iff)
next
  show "ts = ys @ T # zs
        \<and> timeStringToDate (t_startTime T) \<le> now
        \<and> now < timeStringToDate (t_endTime T) + 20 * 60000
        \<and> t_status T \<noteq> ''completed'' \<and> t_status T \<noteq> ''overtimed''
        \<and> (\<forall>t \<in> set ys.
              t_status t = ''completed'' \<or> t_status t = ''overtimed''
              \<or> now < timeStringToDate (t_startTime t)
              \<or> timeStringToDate (t_endTime t) + 20 * 60000 \<le> now) \<longrightarrow>
      currentTask now ts = Some T"
    using currentTask_first [of ts ys T zs now] by blast
next
  show "currentTask now ts = None \<longleftrightarrow>
        (\<forall>t \<in> set ts.
            t_status t = ''completed'' \<or> t_status t = ''overtimed''
            \<or> now < timeStringToDate (t_startTime t)
            \<or> timeStringToDate (t_endTime t) + 20 * 60000 \<le> now)"
    by (rule currentTask_None_iff)
qed

text \<open>
  B from 09:00 to 10:00 and A from 10:00 to 11:00, at 10:05:00. The first variant returns
  A as \<open>RUNNING\<close>. The second variant returns A once B is completed, and nothing at
  11:30:00.
\<close>

theorem running_priority_witness:
  "snd (activeSchedule (envAt (clockAt 10 5 0))
          (appWith [mkSchedule ''B'' 9 0 10 0, mkSchedule ''A'' 10 0 11 0] (clockAt 10 5 0)))
     = Some \<lparr>a_schedule = mkSchedule ''A'' 10 0 11 0, a_status = Some ''RUNNING'',
             a_minutesPastDue = None\<rparr>
   \<and> currentTask (clockAt 10 5 0)
        [(mkTask ''B'' 9 0 10 0)\<lparr>t_status := ''completed''\<rparr>, mkTask ''A'' 10 0 11 0]
     = Some (mkTask ''A'' 10 0 11 0)
   \<and> currentTask (clockAt 11 30 0) [mkTask ''B'' 9 0 10 0, mkTask ''A'' 10 0 11 0] = None"
proof -
  have a: "snd (activeSchedule (envAt (clockAt 10 5 0))
          (appWith [mkSchedule ''B'' 9 0 10 0, mkSchedule ''A'' 10 0 11 0] (clockAt 10 5 0)))
     = Some \<lparr>a_schedule = mkSchedule ''A'' 10 0 11 0, a_status = Some ''RUNNING'',
             a_minutesPastDue = None\<rparr>"
    using running_priority
      [of "mkSchedule ''A'' 10 0 11 0"
          "appWith [mkSchedule ''B'' 9 0 10 0, mkSchedule ''A'' 10 0 11 0] (clockAt 10 5 0)"
          _ "[mkSchedule ''B'' 9 0 10 0]" "[]"]
    by (simp add: isRunning_def example_defs clock_defs)
  have b: "currentTask (clockAt 10 5 0)
        [(mkTask ''B'' 9 0 10 0)\<lparr>t_status := ''completed''\<rparr>, mkTask ''A'' 10 0 11 0]
     = Some (mkTask ''A'' 10 0 11 0)"
    using running_priority
      [of _ _ _ _ _
          "[(mkTask ''B'' 9 0 10 0)\<lparr>t_status := ''completed''\<rparr>, mkTask ''A'' 10 0 11 0]"
          "[(mkTask ''B'' 9 0 10 0)\<lparr>t_status := ''completed''\<rparr>]" "mkTask ''A'' 10 0 11 0" "[]"
          "clockAt 10 5 0"]
    by (simp add: example_defs clock_defs)
  have c: "currentTask (clockAt 11 30 0) [mkTask ''B'' 9 0 10 0, mkTask ''A'' 10 0 11 0] = None"
    by (simp add: currentTask_eq example_defs clock_defs)
  from a b c show ?thesis by simp
qed

subsection \<open>C7: when the reminder is emitted\<close>








subsection \<open>C8: an end that is not after the start\<close>

text \<open>
  C8 (as stated, at the first variant's \<open>handleScheduleSubmit\<close>). A submission from 10:00
  to 09:00 is stored as entered.
\<close>

theorem submit_end_before_start_counterexample:
  "schedules (handleScheduleSubmit (envAt (clockAt 8 0 0))
                \<lparr>sf_name = ''x'', sf_startTime = hhmm 10 0, sf_endTime = hhmm 9 0\<rparr>
                (appWith [] (clockAt 8 0 0)))
     = [\<lparr>s_id = ''n1'', s_name = ''x'', s_startTime = hhmm 10 0, s_endTime = hhmm 9 0,
         s_createdAt = clockAt 8 0 0\<rparr>]"
  by (simp add: handleScheduleSubmit_def addDoc_def onSnapshotSchedules_def envAt_def appWith_def)

lemma handleSubmit_rejects:
  assumes "in_startTime inp = Some s" and "in_endTime inp = Some t"
    and "timeStringToDate t \<le> timeStringToDate s"
  shows "tasks (handleSubmit e inp st) = tasks st \<and> formError (handleSubmit e inp st) \<noteq> ''''"
  using assms by (simp add: handleSubmit_def Let_def)

lemma handleSubmit_accepts:
  assumes "in_startTime inp = Some s" and "in_endTime inp = Some t"
    and "timeStringToDate s < timeStringToDate t" and "in_activity inp \<noteq> ''''" and "setDoc_ok e"
  shows "\<lparr>t_id = newDocId e, t_activity = in_activity inp, t_startTime = s, t_endTime = t,
           t_status = ''pending''\<rparr> \<in> set (tasks (handleSubmit e inp st))"
  using assms by (simp add: handleSubmit_def Let_def setDoc_def set_onSnapshotTasks)

lemma handleScheduleSubmit_stores:
  assumes "db e" and "userId e \<noteq> None" and "addDoc_ok e"
  shows "\<lparr>s_id = newDocId e, s_name = sf_name form, s_startTime = sf_startTime form,
           s_endTime = sf_endTime form, s_createdAt = clock e\<rparr>
         \<in> set (schedules (handleScheduleSubmit e form st))"
  using assms by (auto simp: handleScheduleSubmit_def addDoc_def onSnapshotSchedules_def)

text \<open>
  C8 (amended). Second variant (\<open>AddScheduleForm.handleSubmit\<close>): a submission whose end
  is not strictly later than its start on the same day is rejected, the task list is
  unchanged and an error text is shown; one whose end is later (with an activity name and
  an accepted write) adds the pending task. First variant (\<open>handleScheduleSubmit\<close>):
  there is no such check, and whenever the write is accepted the schedule is stored as
  entered, whatever its start and end.
\<close>

theorem submit_end_before_start:
  "(in_startTime inp = Some s \<and> in_endTime inp = Some t
      \<and> timeStringToDate t \<le> timeStringToDate s \<longrightarrow>
        tasks (handleSubmit e inp st) = tasks st \<and> formError (handleSubmit e inp st) \<noteq> '''')
   \<and> (in_startTime inp = Some s \<and> in_endTime inp = Some t
      \<and> timeStringToDate s < timeStringToDate t \<and> in_activity inp \<noteq> '''' \<and> setDoc_ok e \<longrightarrow>
        \<lparr>t_id = newDocId e, t_activity = in_activity inp, t_startTime = s, t_endTime = t,
         t_status = ''pending''\<rparr> \<in> set (tasks (handleSubmit e inp st)))
   \<and> (db e' \<and> userId e' \<noteq> None \<and> addDoc_ok e' \<longrightarrow>
        \<lparr>s_id = newDocId e', s_name = sf_name form, s_startTime = sf_startTime form,
         s_endTime = sf_endTime form, s_createdAt = clock e'\<rparr>
        \<in> set (schedules (handleScheduleSubmit e' form st')))"
  using handleSubmit_rejects [of inp s t e st] handleSubmit_accepts [of inp s t e st]
    handleScheduleSubmit_stores [of e' form st']
  by blast

text \<open>
  In the second variant a task from 10:00 to 09:00, and one from 10:00 to 10:00, are
  refused with the message of the check; a task from 09:00 to 10:00 is added.
\<close>

theorem submit_end_before_start_witness:
  "tasks (handleSubmit (envAt (clockAt 8 0 0))
            \<lparr>in_activity = ''x'', in_startTime = Some (hhmm 10 0), in_endTime = Some (hhmm 9 0)\<rparr>
            (schedulerWith [] (clockAt 8 0 0))) = []
   \<and> formError (handleSubmit (envAt (clockAt 8 0 0))
            \<lparr>in_activity = ''x'', in_startTime = Some (hhmm 10 0), in_endTime = Some (hhmm 9 0)\<rparr>
            (schedulerWith [] (clockAt 8 0 0))) = ''End time must be after start time.''
   \<and> tasks (handleSubmit (envAt (clockAt 8 0 0))
            \<lparr>in_activity = ''x'', in_startTime = Some (hhmm 10 0), in_endTime = Some (hhmm 10 0)\<rparr>
            (schedulerWith [] (clockAt 8 0 0))) = []
   \<and> tasks (handleSubmit (envAt (clockAt 8 0 0))
            \<lparr>in_activity = ''x'', in_startTime = Some (hhmm 9 0), in_endTime = Some (hhmm 10 0)\<rparr>
            (schedulerWith [] (clockAt 8 0 0)))
       = [\<lparr>t_id = ''n1'', t_activity = ''x'', t_startTime = hhmm 9 0, t_endTime = hhmm 10 0,
           t_status = ''pending''\<rparr>]"
proof -
  have "tasks (handleSubmit (envAt (clockAt 8 0 0))
            \<lparr>in_activity = ''x'', in_startTime = Some (hhmm 10 0), in_endTime = Some (hhmm 9 0)\<rparr>
            (schedulerWith [] (clockAt 8 0 0))) = tasks (schedulerWith [] (clockAt 8 0 0))"
    using submit_end_before_start
      [of "\<lparr>in_activity = ''x'', in_startTime = Some (hhmm 10 0), in_endTime = Some (hhmm 9 0)\<rparr>"
          "hhmm 10 0" "hhmm 9 0" "envAt (clockAt 8 0 0)" "schedulerWith [] (clockAt 8 0 0)"]
    by (simp add: hhmm_def timeStringToDate_def)
  moreover have "formError (handleSubmit (envAt (clockAt 8 0 0))
            \<lparr>in_activity = ''x'', in_startTime = Some (hhmm 10 0), in_endTime = Some (hhmm 9 0)\<rparr>
            (schedulerWith [] (clockAt 8 0 0))) = ''End time must be after start time.''"
    by (simp add: handleSubmit_def Let_def hhmm_def timeStringToDate_def)
  moreover have "tasks (handleSubmit (envAt (clockAt 8 0 0))
            \<lparr>in_activity = ''x'', in_startTime = Some (hhmm 10 0), in_endTime = Some (hhmm 10 0)\<rparr>
            (schedulerWith [] (clockAt 8 0 0))) = []"
    by (simp add: handleSubmit_def Let_def hhmm_def timeStringToDate_def schedulerWith_def)
  moreover have "tasks (handleSubmit (envAt (clockAt 8 0 0))
            \<lparr>in_activity = ''x'', in_startTime = Some (hhmm 9 0), in_endTime = Some (hhmm 10 0)\<rparr>
            (schedulerWith [] (clockAt 8 0 0)))
       = [\<lparr>t_id = ''n1'', t_activity = ''x'', t_startTime = hhmm 9 0, t_endTime = hhmm 10 0,
           t_status = ''pending''\<rparr>]"
    by (simp add: handleSubmit_def Let_def hhmm_def timeStringToDate_def schedulerWith_def
        setDoc_def onSnapshotTasks_def envAt_def)
  ultimately show ?thesis
    by (simp add: schedulerWith_def)
qed

subsection \<open>C9: the first variant never removes a finished schedule\<close>

text \<open>
  C9. In the first variant, whenever a finish goes through (Firestore handle and user
  present, the task found) and its history append succeeds, the removal step fails:
  \<open>deleteDoc\<close> is not among the names the module binds, so evaluating it raises a
  \<open>ReferenceError\<close>, which the \<open>catch\<close> logs as the last console line; the stored
  schedules are unchanged and the finished schedule is still among them. This holds for
  the button (no override) and for the auto-advance (\<open>'OVERTIME'\<close>) alike.
\<close>

theorem handleFinishTask_removal_fails:
  assumes "db e" and "userId e \<noteq> None" and "taskId \<noteq> ''''"
    and "find (\<lambda>s. s_id s = taskId) (schedules st) = Some task"
    and "addDoc_ok e"
  shows "length (historyDocs (handleFinishTask e taskId statusOverride st))
           = Suc (length (historyDocs st))
       \<and> last (consoleErrors (handleFinishTask e taskId statusOverride st))
           = (''Error deleting schedule:'', ReferenceError ''deleteDoc'')
       \<and> schedules (handleFinishTask e taskId statusOverride st) = schedules st
       \<and> task \<in> set (schedules (handleFinishTask e taskId statusOverride st))"
proof -
  have mem: "task \<in> set (schedules st)"
    using assms(4) by (auto simp: find_Some_iff)
  show ?thesis
    using assms mem
    by (simp add: handleFinishTask_def lookup_deleteDoc addDoc_def Let_def)
qed

theorem handleFinishTask_removal_fails_witness:
  "schedules (handleFinishTask (envAt (clockAt 10 5 0)) ''b'' None
                (appWith [mkSchedule ''b'' 9 0 10 0] (clockAt 10 5 0)))
     = [mkSchedule ''b'' 9 0 10 0]
   \<and> consoleErrors (handleFinishTask (envAt (clockAt 10 5 0)) ''b'' None
                (appWith [mkSchedule ''b'' 9 0 10 0] (clockAt 10 5 0)))
     = [(''Error deleting schedule:'', ReferenceError ''deleteDoc'')]
   \<and> map hd_status (historyDocs (handleFinishTask (envAt (clockAt 10 5 0)) ''b'' None
                (appWith [mkSchedule ''b'' 9 0 10 0] (clockAt 10 5 0))))
     = [''ON TIME'']"
proof -
  have pre: "db (envAt (clockAt 10 5 0))" "userId (envAt (clockAt 10 5 0)) \<noteq> None"
    "''b'' \<noteq> ''''" "addDoc_ok (envAt (clockAt 10 5 0))"
    "find (\<lambda>s. s_id s = ''b'') (schedules (appWith [mkSchedule ''b'' 9 0 10 0] (clockAt 10 5 0)))
       = Some (mkSchedule ''b'' 9 0 10 0)"
    by (simp_all add: envAt_def appWith_def mkSchedule_def)
  have hist: "map hd_status (historyDocs (handleFinishTask (envAt (clockAt 10 5 0)) ''b'' None
                (appWith [mkSchedule ''b'' 9 0 10 0] (clockAt 10 5 0)))) = [''ON TIME'']"
    by (simp add: handleFinishTask_def lookup_deleteDoc addDoc_def Let_def envAt_def appWith_def
        mkSchedule_def hhmm_def clockAt_def endMinutes_def startMinutes_def getHours_def
        getMinutes_def OVERTIME_GRACE_MINUTES_def)
  have errs: "consoleErrors (handleFinishTask (envAt (clockAt 10 5 0)) ''b'' None
                (appWith [mkSchedule ''b'' 9 0 10 0] (clockAt 10 5 0)))
     = [(''Error deleting schedule:'', ReferenceError ''deleteDoc'')]"
    by (simp add: handleFinishTask_def lookup_deleteDoc addDoc_def Let_def envAt_def appWith_def
        mkSchedule_def)
  from handleFinishTask_removal_fails [OF pre(1) pre(2) pre(3) pre(5) pre(4), of None]
  have "schedules (handleFinishTask (envAt (clockAt 10 5 0)) ''b'' None
                (appWith [mkSchedule ''b'' 9 0 10 0] (clockAt 10 5 0)))
     = schedules (appWith [mkSchedule ''b'' 9 0 10 0] (clockAt 10 5 0))"
    by simp
  then show ?thesis
    using hist errs by (simp add: appWith_def)
qed

subsection \<open>C10: dismissing the reminder popup\<close>











end
